theory Spec2Isabelle
  imports Complex_Main "HOL-Library.AList"
begin

section \<open>Python values, errors and string helpers\<close>

text \<open>
  The plotting code is Python. Exceptions are modelled as values of the type
  \<open>error\<close> (the payload is the name or the message fragment that identifies the
  raise statement); a function that can raise returns \<open>error + 'a\<close>. Floats are
  idealised as real numbers, strings are ASCII character lists.
\<close>

datatype error =
    ValueError string
  | NameError string
  | KeyError string
  | TypeError string
  | IndexError string
  | UnboundLocalError string
  | NotImplementedError string
  | AssertionError string

datatype pyval = PNone | PBool bool | PNum real | PStr string

type_synonym kwargs = "(string \<times> pyval) list"

text \<open>\<open>d.get(k, default)\<close> and \<open>d.pop(k, default)\<close> on a keyword dictionary.\<close>

definition kw_get :: "kwargs \<Rightarrow> string \<Rightarrow> pyval \<Rightarrow> pyval" where
  "kw_get kw k d = (case map_of kw k of None \<Rightarrow> d | Some v \<Rightarrow> v)"

definition kw_pop :: "kwargs \<Rightarrow> string \<Rightarrow> pyval \<Rightarrow> pyval \<times> kwargs" where
  "kw_pop kw k d = (kw_get kw k d, AList.delete k kw)"

definition kw_has :: "kwargs \<Rightarrow> string \<Rightarrow> bool" where
  "kw_has kw k = (map_of kw k \<noteq> None)"

text \<open>Decimal rendering of integers (\<open>str(n)\<close>, \<open>f"{n}"\<close>).\<close>

definition digit_char :: "nat \<Rightarrow> char" where
  "digit_char d = ''0123456789'' ! (d mod 10)"

function str_nat :: "nat \<Rightarrow> string" where
  "str_nat n = (if n < 10 then [digit_char n] else str_nat (n div 10) @ [digit_char n])"
  by pat_completeness auto
termination
  by (relation "measure id") auto

declare str_nat.simps [simp del]

definition str_int :: "int \<Rightarrow> string" where
  "str_int i = (if i < 0 then CHR ''-'' # str_nat (nat (- i)) else str_nat (nat i))"

section \<open>BoxLocation (plot.py)\<close>

text \<open>
  The location parameter is an integer or a string; \<open>_prepare_loc\<close> first takes
  \<open>str(self.loc)\<close>.
\<close>

datatype locarg = LInt int | LStr string

fun str_loc :: "locarg \<Rightarrow> string" where
  "str_loc (LInt i) = str_int i"
| "str_loc (LStr s) = s"

datatype vloc = Vb | Vc | Vt
datatype hloc = Hl | Hc | Hr

definition eval_loc_vert :: "string \<Rightarrow> error + vloc" where
  "eval_loc_vert loc =
     (if loc \<in> {''0'', ''b'', ''bottom''} then Inr Vb
      else if loc \<in> {''1'', ''c'', ''center''} then Inr Vc
      else if loc \<in> {''2'', ''t'', ''top''} then Inr Vt
      else Inl (ValueError (''invalid vertical location component '' @ loc)))"

definition eval_loc_horz :: "string \<Rightarrow> error + hloc" where
  "eval_loc_horz loc =
     (if loc \<in> {''0'', ''l'', ''left''} then Inr Hl
      else if loc \<in> {''1'', ''c'', ''center''} then Inr Hc
      else if loc \<in> {''2'', ''r'', ''right''} then Inr Hr
      else Inl (ValueError (''invalid horizontal location component '' @ loc)))"

text \<open>
  \<open>_prepare_loc\<close>: a two-character string is unpacked into its two characters, the
  literal \<open>center\<close> stands for both components, and every other string reaches the
  branch \<open>loc_y, loc_x = line.split(' ', 1)\<close>, where the name \<open>line\<close> is bound
  nowhere (neither in the method nor in the module): evaluating it raises
  \<open>NameError\<close>.
\<close>

definition prepare_loc :: "locarg \<Rightarrow> error + (vloc \<times> hloc)" where
  "prepare_loc l =
     (let loc = str_loc l in
      case (if length loc = 2 then Inr ([loc ! 0], [loc ! 1])
            else if loc = ''center'' then Inr (loc, loc)
            else Inl (NameError ''line'')) of
        Inl e \<Rightarrow> Inl e
      | Inr (loc_y, loc_x) \<Rightarrow>
          (case eval_loc_vert loc_y of
             Inl e \<Rightarrow> Inl e
           | Inr y \<Rightarrow>
               (case eval_loc_horz loc_x of
                  Inl e \<Rightarrow> Inl e
                | Inr x \<Rightarrow> Inr (y, x))))"

text \<open>\<open>BoxLocation(loc)\<close>: the constructor stores the two evaluated components.\<close>

definition BoxLocation :: "locarg \<Rightarrow> error + (vloc \<times> hloc)" where
  "BoxLocation l = prepare_loc l"

fun get_va :: "vloc \<times> hloc \<Rightarrow> string" where
  "get_va (Vb, _) = ''baseline''"
| "get_va (Vc, _) = ''center_baseline''"
| "get_va (Vt, _) = ''top''"

fun get_ha :: "vloc \<times> hloc \<Rightarrow> string" where
  "get_ha (_, Hl) = ''left''"
| "get_ha (_, Hc) = ''center''"
| "get_ha (_, Hr) = ''right''"

fun get_y0 :: "vloc \<times> hloc \<Rightarrow> real \<Rightarrow> real" where
  "get_y0 (Vb, _) dy = 0.0 + dy"
| "get_y0 (Vc, _) dy = 0.5"
| "get_y0 (Vt, _) dy = 1.0 - dy"

fun get_x0 :: "vloc \<times> hloc \<Rightarrow> real \<Rightarrow> real" where
  "get_x0 (_, Hl) dx = 0.0 + dx"
| "get_x0 (_, Hc) dx = 0.5"
| "get_x0 (_, Hr) dx = 1.0 - dx"

section \<open>Colour sequences (plots.py)\<close>

definition colors_core_8 :: "string list" where
  "colors_core_8 =
     [''bisque'', ''violet'', ''rebeccapurple'', ''cornflowerblue'',
      ''forestgreen'', ''yellowgreen'', ''greenyellow'', ''yellow'']"

definition colors_core_7 :: "string list" where
  "colors_core_7 = map (\<lambda>i. colors_core_8 ! i) [0, 1, 2, 3, 5, 6, 7]"

definition colors_core_6 :: "string list" where
  "colors_core_6 = map (\<lambda>i. colors_core_8 ! i) [1, 2, 3, 4, 5, 7]"

definition colors_core_5 :: "string list" where
  "colors_core_5 = map (\<lambda>i. colors_core_8 ! i) [1, 2, 4, 5, 7]"

definition colors_core_4 :: "string list" where
  "colors_core_4 = map (\<lambda>i. colors_core_8 ! i) [1, 2, 4, 7]"

text \<open>The dictionary from the level count to the core palette; a missing key is \<open>None\<close>.\<close>

definition colors_core :: "int \<Rightarrow> string list option" where
  "colors_core n_levels =
     (if n_levels = 5 then Some colors_core_4
      else if n_levels = 6 then Some colors_core_5
      else if n_levels = 7 then Some colors_core_6
      else if n_levels = 8 then Some colors_core_7
      else if n_levels = 9 then Some colors_core_8
      else None)"

definition color_under :: string where
  "color_under = ''darkgray''"

definition color_over :: string where
  "color_over = ''lightgray''"

definition colors_flexplot :: "int \<Rightarrow> string \<Rightarrow> error + string list" where
  "colors_flexplot n_levels extend =
     (case colors_core n_levels of
        None \<Rightarrow> Inl (ValueError (''n_levels='' @ str_int n_levels))
      | Some core \<Rightarrow>
          if extend = ''none'' then Inr core
          else if extend = ''min'' then Inr ([color_under] @ core)
          else if extend = ''max'' then Inr (core @ [color_over])
          else if extend = ''both'' then Inr ([color_under] @ core @ [color_over])
          else Inl (ValueError (''extend='' @ extend)))"

section \<open>Layout of the text boxes around the map (plot.py)\<close>

text \<open>A rectangle \<open>[left, bottom, width, height]\<close> in figure coordinates.\<close>

record rect =
  left :: real
  bottom :: real
  width :: real
  height :: real

definition mk_rect :: "real \<Rightarrow> real \<Rightarrow> real \<Rightarrow> real \<Rightarrow> rect" where
  "mk_rect x y w h = \<lparr>left = x, bottom = y, width = w, height = h\<rparr>"

text \<open>
  What \<open>fig_add_text_boxes\<close> leaves behind: the position given to the map axes and
  the array \<open>axs_box\<close> of the three text boxes (top, right top, right bottom).
\<close>

record layout =
  ax_ref_position :: rect
  axs_box :: "rect list"

text \<open>
  \<open>FlexPlotConcentration.fig_add_text_boxes\<close>. The pixel extent of the figure
  (\<open>fig_pxs\<close>) and the dimensions of the map axes in figure coordinates
  (\<open>ax_dims_fig_coords\<close>) come from the drawing library and are inputs here; the
  three keyword parameters have the defaults 0.1, 0.25 and 0.015.
\<close>

definition fig_add_text_boxes ::
  "real \<Rightarrow> real \<Rightarrow> real \<Rightarrow> real \<Rightarrow> real \<Rightarrow> real \<Rightarrow> real \<Rightarrow> layout" where
  "fig_add_text_boxes fig_pxs_width fig_pxs_height w_map h_map h_rel w_rel pad_hor_rel =
     (let fig_aspect = fig_pxs_width / fig_pxs_height;
          x0_map = 0.05;
          y0_map = 0.05;
          w_box = w_rel * w_map;
          h_box = h_rel * h_map;
          pad_hor = pad_hor_rel * w_map;
          pad_ver = pad_hor * fig_aspect;
          h_rel_box_top = 0.4
      in \<lparr>ax_ref_position = mk_rect x0_map y0_map w_map h_map,
          axs_box =
            [mk_rect x0_map (y0_map + pad_ver + h_map) (w_map + pad_hor + w_box) h_box,
             mk_rect (x0_map + pad_hor + w_map)
               (y0_map + 0.5 * pad_ver + (1.0 - h_rel_box_top) * h_map)
               w_box (h_rel_box_top * h_map - 0.5 * pad_ver),
             mk_rect (x0_map + pad_hor + w_map) y0_map
               w_box ((1.0 - h_rel_box_top) * h_map - 0.5 * pad_ver)]\<rparr>)"

text \<open>
  Two rectangles overlap when their open interiors share a point: on both axes the
  larger of the two lower edges lies below the smaller of the two upper edges.
\<close>

definition overlap :: "rect \<Rightarrow> rect \<Rightarrow> bool" where
  "overlap r s \<longleftrightarrow>
     max (left r) (left s) < min (left r + width r) (left s + width s) \<and>
     max (bottom r) (bottom s) < min (bottom r + height r) (bottom s + height s)"

definition inside :: "rect \<Rightarrow> real \<Rightarrow> real \<Rightarrow> bool" where
  "inside r x y \<longleftrightarrow>
     left r < x \<and> x < left r + width r \<and> bottom r < y \<and> y < bottom r + height r"

section \<open>String helpers of the Python library\<close>

text \<open>
  \<open>str.strip()\<close> removes whitespace at both ends; the ASCII whitespace characters
  are tab, line feed, vertical tab, form feed, carriage return, the four separators
  0x1C to 0x1F and the space.
\<close>

definition py_isspace :: "char \<Rightarrow> bool" where
  "py_isspace c \<longleftrightarrow>
     c \<in> {CHR 0x09, CHR 0x0A, CHR 0x0B, CHR 0x0C, CHR 0x0D,
          CHR 0x1C, CHR 0x1D, CHR 0x1E, CHR 0x1F, CHR '' ''}"

definition strip :: "string \<Rightarrow> string" where
  "strip s = rev (dropWhile py_isspace (rev (dropWhile py_isspace s)))"

text \<open>The format specifications \<open>:>n\<close> and \<open>:<n\<close>: pad with spaces, never cut.\<close>

definition rjust :: "nat \<Rightarrow> string \<Rightarrow> string" where
  "rjust n s = replicate (n - length s) CHR '' '' @ s"

definition ljust :: "nat \<Rightarrow> string \<Rightarrow> string" where
  "ljust n s = s @ replicate (n - length s) CHR '' ''"

section \<open>Contour colours and legend labels of the concentration plot (plot.py)\<close>

text \<open>
  The attributes of \<open>FlexPlotConcentration\<close> that the legend reads. The colours
  are whatever the colour map returns, so their type is a parameter.
\<close>

record 'c plot_attrs =
  attr_levels :: "real list"
  attr_extend :: string
  attr_colors :: "'c list"

text \<open>\<open>np.linspace(0, 1, num)\<close>.\<close>

definition linspace01 :: "nat \<Rightarrow> real list" where
  "linspace01 num =
     (if num = 1 then [0] else map (\<lambda>i. real i / real (num - 1)) [0..<num])"

text \<open>
  The body of \<open>map_add_particle_concentrations\<close> as far as it sets the attributes.
  The source fixes \<open>levels_log10 = np.arange(-1, 9.1, 1)\<close> and the extend mode
  \<open>max\<close> in the method; here they are parameters, and the method itself is the
  instance below. The colour map (a library object) is the function \<open>cmap\<close>. The
  dictionary of the four slices is indexed with the extend mode, which raises
  \<open>KeyError\<close> for any other string.
\<close>

definition map_add_particle_concentrations_with ::
  "(real \<Rightarrow> 'c) \<Rightarrow> real list \<Rightarrow> string \<Rightarrow> error + 'c plot_attrs" where
  "map_add_particle_concentrations_with cmap levels_log10 ext =
     (let cols = map cmap (linspace01 (length levels_log10 + 1)) in
      case (if ext = ''none'' then Inr (butlast (tl cols))
            else if ext = ''min'' then Inr (butlast cols)
            else if ext = ''max'' then Inr (tl cols)
            else if ext = ''both'' then Inr cols
            else Inl (KeyError ext)) of
        Inl e \<Rightarrow> Inl e
      | Inr cs \<Rightarrow>
          Inr \<lparr>attr_levels = map (\<lambda>l. 10 powr l) levels_log10, attr_extend = ext, attr_colors = cs\<rparr>)"

definition map_add_particle_concentrations :: "(real \<Rightarrow> 'c) \<Rightarrow> error + 'c plot_attrs" where
  "map_add_particle_concentrations cmap =
     map_add_particle_concentrations_with cmap [-1, 0, 1, 2, 3, 4, 5, 6, 7, 8, 9] ''max''"

text \<open>
  \<open>_format_level_ranges\<close>. The rendering \<open>f"{lvl:g}"\<close> of a float is the library's
  and is the parameter \<open>g\<close>. Indexing an empty array of levels raises
  \<open>IndexError\<close>; the final assertion compares the number of labels with the number
  of colours.
\<close>

definition format_level :: "(real \<Rightarrow> string) \<Rightarrow> real option \<Rightarrow> string" where
  "format_level g lvl = (case lvl of None \<Rightarrow> '''' | Some l \<Rightarrow> strip (g l))"

definition format_label :: "(real \<Rightarrow> string) \<Rightarrow> real option \<Rightarrow> real option \<Rightarrow> string" where
  "format_label g lvl0 lvl1 =
     rjust 6 (format_level g lvl0) @ '' > '' @ ljust 6 (format_level g lvl1)"

definition format_level_ranges :: "(real \<Rightarrow> string) \<Rightarrow> 'c plot_attrs \<Rightarrow> error + string list" where
  "format_level_ranges g self =
     (let under = attr_extend self \<in> {''min'', ''both''};
          over = attr_extend self \<in> {''max'', ''both''}
      in if (under \<or> over) \<and> attr_levels self = [] then
           Inl (IndexError ''index out of bounds'')
         else
           let labels =
                 (if under then [format_label g None (Some (hd (attr_levels self)))] else [])
                 @ map (\<lambda>(lvl0, lvl1). format_label g (Some lvl0) (Some lvl1))
                     (zip (butlast (attr_levels self)) (tl (attr_levels self)))
                 @ (if over then [format_label g None (Some (last (attr_levels self)))] else [])
           in if length labels = length (attr_colors self) then Inr labels
              else Inl (AssertionError ''len(labels) != len(self.colors)''))"

section \<open>Number formatting of the Python library\<close>

text \<open>
  Floats are idealised as reals, so the format specifications \<open>.Nf\<close>, \<open>.NE\<close> and
  \<open>.N%\<close> render the exact value, rounded to the nearest representable decimal
  with ties to even.
\<close>

definition round_half_even :: "real \<Rightarrow> int" where
  "round_half_even x =
     (let f = \<lfloor>x\<rfloor>; d = x - of_int f
      in if d < 1/2 then f else if 1/2 < d then f + 1 else if even f then f else f + 1)"

definition zfill :: "nat \<Rightarrow> string \<Rightarrow> string" where
  "zfill n s = replicate (n - length s) CHR ''0'' @ s"

text \<open>The digits of the scaled value \<open>m\<close> with \<open>p\<close> of them after the point.\<close>

definition point_digits :: "nat \<Rightarrow> nat \<Rightarrow> string" where
  "point_digits p m =
     str_nat (m div 10 ^ p) @ (if p = 0 then '''' else ''.'' @ zfill p (str_nat (m mod 10 ^ p)))"

definition fmt_f :: "nat \<Rightarrow> real \<Rightarrow> string" where
  "fmt_f p x =
     (if x < 0 then ''-'' else '''') @ point_digits p (nat (round_half_even (\<bar>x\<bar> * 10 ^ p)))"

text \<open>The decimal exponent of a value of at least 1, and of a positive value below 1.\<close>

function exp_up :: "real \<Rightarrow> nat" where
  "exp_up x = (if 10 \<le> x then Suc (exp_up (x / 10)) else 0)"
  by pat_completeness auto
termination
proof (relation "measure (\<lambda>x. nat \<lfloor>x\<rfloor>)")
  show "wf (measure (\<lambda>x::real. nat \<lfloor>x\<rfloor>))"
    by simp
next
  fix x :: real
  assume "10 \<le> x"
  then have "\<lfloor>x / 10\<rfloor> < \<lfloor>x\<rfloor>"
    by linarith
  moreover from \<open>10 \<le> x\<close> have "0 < \<lfloor>x\<rfloor>"
    by linarith
  ultimately show "(x / 10, x) \<in> measure (\<lambda>x. nat \<lfloor>x\<rfloor>)"
    by simp
qed

function exp_down :: "real \<Rightarrow> nat" where
  "exp_down x = (if 0 < x \<and> x < 1 then Suc (exp_down (x * 10)) else 0)"
  by pat_completeness auto
termination
proof (relation "measure (\<lambda>x. nat \<lceil>1 / x\<rceil>)")
  show "wf (measure (\<lambda>x::real. nat \<lceil>1 / x\<rceil>))"
    by simp
next
  fix x :: real
  assume x: "0 < x \<and> x < 1"
  define y where "y = 1 / x"
  have y: "1 < y"
    using x by (simp add: y_def)
  have two: "2 \<le> \<lceil>y\<rceil>"
    using y by linarith
  have less: "\<lceil>y / 10\<rceil> < \<lceil>y\<rceil>"
  proof (cases "y \<le> 10")
    case True
    then have "\<lceil>y / 10\<rceil> \<le> 1"
      by (simp add: ceiling_le_iff)
    with two show ?thesis
      by linarith
  next
    case False
    then have "y / 10 \<le> y - 9"
      by simp
    then have "\<lceil>y / 10\<rceil> \<le> \<lceil>y - 9\<rceil>"
      by (rule ceiling_mono)
    also have "\<dots> = \<lceil>y\<rceil> - 9"
      by simp
    finally show ?thesis
      by simp
  qed
  have e: "1 / (x * 10) = y / 10"
    by (simp add: y_def)
  have m: "nat \<lceil>y / 10\<rceil> < nat \<lceil>y\<rceil>"
    using less two by linarith
  show "(x * 10, x) \<in> measure (\<lambda>x. nat \<lceil>1 / x\<rceil>)"
    unfolding in_measure e y_def [symmetric] by (rule m)
qed

declare exp_up.simps [simp del] exp_down.simps [simp del]

definition fmt_E :: "nat \<Rightarrow> real \<Rightarrow> string" where
  "fmt_E p x =
     (let a = \<bar>x\<bar>;
          e0 = (if 1 \<le> a then int (exp_up a) else - int (exp_down a));
          m0 = nat (round_half_even
                 ((if 0 \<le> e0 then a / 10 ^ nat e0 else a * 10 ^ nat (- e0)) * 10 ^ p));
          m = (if 10 ^ (p + 1) \<le> m0 then m0 div 10 else m0);
          e = (if 10 ^ (p + 1) \<le> m0 then e0 + 1 else e0)
      in (if x < 0 then ''-'' else '''') @ point_digits p m @ ''E''
         @ (if e < 0 then ''-'' else ''+'') @ zfill 2 (str_nat (nat \<bar>e\<bar>)))"

definition fmt_percent :: "nat \<Rightarrow> real \<Rightarrow> string" where
  "fmt_percent p x = fmt_f p (x * 100) @ ''%''"

section \<open>The field maximum in the legend box (plots.py)\<close>

text \<open>
  The precision table of \<open>fill_box_right_middle\<close>, applied to
  \<open>fld_max = np.nanmax(plot.field.fld)\<close>.
\<close>

definition s_val_of_max :: "real \<Rightarrow> string" where
  "s_val_of_max fld_max =
     (if 0.001 \<le> fld_max \<and> fld_max < 0.01 then fmt_f 5 fld_max
      else if 0.01 \<le> fld_max \<and> fld_max < 0.1 then fmt_f 4 fld_max
      else if 0.1 \<le> fld_max \<and> fld_max < 1 then fmt_f 3 fld_max
      else if 1 \<le> fld_max \<and> fld_max < 10 then fmt_f 2 fld_max
      else if 10 \<le> fld_max \<and> fld_max < 100 then fmt_f 1 fld_max
      else if 100 \<le> fld_max \<and> fld_max < 1000 then fmt_f 0 fld_max
      else fmt_E 2 fld_max)"

section \<open>Text boxes (plot.py, class FlexAxesTextBox)\<close>

text \<open>
  A text is a plain string or a \<open>ColorStr(s, c)\<close>. The drawing library is the
  collaborator behind \<open>self.ax\<close>: the model records the calls made on it, in
  order, with the keyword dictionary each call receives.
\<close>

datatype pytext = Str string | ColorStr string pyval

datatype draw_call = AxText real real pytext kwargs | AxHLine real kwargs

text \<open>
  The state of a text box: the unit distances \<open>self.dx\<close> and \<open>self.dy\<close>, the
  debugging switch for the baseline with its keyword dictionary, and the calls made
  on the axes so far.
\<close>

record textbox =
  unit_dx :: real
  unit_dy :: real
  show_baseline :: bool
  baseline_kwargs :: kwargs
  calls :: "draw_call list"

text \<open>
  A number in an arithmetic expression with a float: a Boolean counts as 0 or 1,
  a string or \<open>None\<close> raises \<open>TypeError\<close>.
\<close>

fun num_of :: "pyval \<Rightarrow> error + real" where
  "num_of (PNum r) = Inr r"
| "num_of (PBool b) = Inr (if b then 1 else 0)"
| "num_of (PStr s) = Inl (TypeError ''unsupported operand type: str'')"
| "num_of PNone = Inl (TypeError ''unsupported operand type: NoneType'')"

text \<open>
  \<open>FlexAxesTextBox.text(loc, s, dx=None, dy=None, **kwargs)\<close>. The statement that
  is meant to reject the alignment \<open>top_baseline\<close> builds its message from
  \<open>kwargs['vs']\<close>; the dictionary holds the key \<open>va\<close>, so unless the caller
  passed a keyword \<open>vs\<close> the lookup raises \<open>KeyError\<close> before the
  \<open>NotImplementedError\<close> exists. The call on the axes passes \<open>x\<close> and \<open>y\<close>
  by keyword next to \<open>**kwargs\<close>, which fails for a dictionary that has one of
  these keys.
\<close>

definition text_line ::
  "textbox \<Rightarrow> locarg \<Rightarrow> pytext \<Rightarrow> pyval \<Rightarrow> pyval \<Rightarrow> kwargs \<Rightarrow> error + textbox" where
  "text_line self loc s dx dy kwargs =
     (let dx = (if dx = PNone then PNum 0.0 else dx);
          dy = (if dy = PNone then PNum 0.0 else dy)
      in case BoxLocation loc of
           Inl e \<Rightarrow> Inl e
         | Inr l \<Rightarrow>
             let ha = get_ha l;
                 va = get_va l;
                 x0 = get_x0 l (unit_dx self);
                 y0 = get_y0 l (unit_dy self)
             in case num_of dx of
                  Inl e \<Rightarrow> Inl e
                | Inr dxr \<Rightarrow>
                    (case num_of dy of
                       Inl e \<Rightarrow> Inl e
                     | Inr dyr \<Rightarrow>
                         let x = x0 + dxr * unit_dx self;
                             y = y0 + dyr * unit_dy self;
                             kw1 = AList.update ''ha''
                                     (kw_get kwargs ''horizontalalignment''
                                        (kw_get kwargs ''ha'' (PStr ha))) kwargs;
                             kw2 = AList.update ''va''
                                     (kw_get kw1 ''verticalalignment''
                                        (kw_get kw1 ''va'' (PStr va))) kw1
                         in if kw_get kw2 ''va'' PNone = PStr ''top_baseline'' then
                              (if kw_has kw2 ''vs''
                               then Inl (NotImplementedError ''verticalalignment'')
                               else Inl (KeyError ''vs''))
                            else
                              let kw3 = (case s of
                                           ColorStr _ c \<Rightarrow> AList.update ''color'' c kw2
                                         | Str _ \<Rightarrow> kw2)
                              in if kw_has kw3 ''x'' \<or> kw_has kw3 ''y'' then
                                   Inl (TypeError ''multiple values for keyword argument'')
                                 else
                                   Inr (self\<lparr>calls := calls self @ [AxText x y s kw3]
                                          @ (if show_baseline self
                                             then [AxHLine y (baseline_kwargs self)]
                                             else [])\<rparr>)))"

text \<open>
  The call \<open>self.text(loc, s=line, dy=dy, color=..., **kwargs)\<close> inside
  \<open>text_blocks\<close>: a key \<open>s\<close> or \<open>dy\<close> in the dictionary collides with the
  keywords of the call, a key \<open>dx\<close> binds the parameter \<open>dx\<close>, and everything
  else arrives in the callee's dictionary after \<open>color\<close>.
\<close>

definition call_text ::
  "textbox \<Rightarrow> locarg \<Rightarrow> pytext \<Rightarrow> real \<Rightarrow> pyval \<Rightarrow> kwargs \<Rightarrow> error + textbox" where
  "call_text self loc line dy color kwargs =
     (if kw_has kwargs ''s'' \<or> kw_has kwargs ''dy'' then
        Inl (TypeError ''multiple values for keyword argument'')
      else text_line self loc line (kw_get kwargs ''dx'' PNone) (PNum dy)
             ((''color'', color) # AList.delete ''dx'' kwargs))"

text \<open>
  The preparation of the line colours in \<open>text_blocks\<close>: a missing row becomes a
  row of \<open>None\<close>, then every \<open>None\<close> among the first \<open>len(block)\<close> entries of
  a row is replaced by the default colour; a row shorter than its block raises
  \<open>IndexError\<close>. (The second length check of the loop repeats the first one and
  never fires.)
\<close>

fun fill_colors :: "pyval \<Rightarrow> pytext list list \<Rightarrow> pyval list option list \<Rightarrow> error + pyval list list" where
  "fill_colors d [] cs = Inr []"
| "fill_colors d (b # bs) [] = Inl (IndexError ''list index out of range'')"
| "fill_colors d (b # bs) (c # cs) =
     (let row = (case c of None \<Rightarrow> replicate (length b) PNone | Some r \<Rightarrow> r)
      in if length row < length b then Inl (IndexError ''list index out of range'')
         else case fill_colors d bs cs of
                Inl e \<Rightarrow> Inl e
              | Inr rest \<Rightarrow>
                  Inr ((map (\<lambda>v. if v = PNone then d else v) (take (length b) row)
                        @ drop (length b) row) # rest))"

definition revert :: "'a list list \<Rightarrow> 'a list list" where
  "revert lsts = map rev (rev lsts)"

text \<open>The two nested loops of \<open>text_blocks\<close>; the result carries the running \<open>dy\<close>.\<close>

fun text_lines ::
  "textbox \<Rightarrow> locarg \<Rightarrow> kwargs \<Rightarrow> real \<Rightarrow> real \<Rightarrow> pytext list \<Rightarrow> pyval list \<Rightarrow> error + (textbox \<times> real)" where
  "text_lines self loc kwargs dy dy_line [] cs = Inr (self, dy)"
| "text_lines self loc kwargs dy dy_line (line # ls) [] =
     Inl (IndexError ''list index out of range'')"
| "text_lines self loc kwargs dy dy_line (line # ls) (c # cs) =
     (case call_text self loc line dy c kwargs of
        Inl e \<Rightarrow> Inl e
      | Inr self' \<Rightarrow> text_lines self' loc kwargs (dy + dy_line) dy_line ls cs)"

fun text_blocks_loop ::
  "textbox \<Rightarrow> locarg \<Rightarrow> kwargs \<Rightarrow> real \<Rightarrow> real \<Rightarrow> real \<Rightarrow> pytext list list \<Rightarrow> pyval list list \<Rightarrow> error + textbox" where
  "text_blocks_loop self loc kwargs dy dy_line dy_block [] cs = Inr self"
| "text_blocks_loop self loc kwargs dy dy_line dy_block (b # bs) [] =
     Inl (IndexError ''list index out of range'')"
| "text_blocks_loop self loc kwargs dy dy_line dy_block (b # bs) (c # cs) =
     (case text_lines self loc kwargs dy dy_line b c of
        Inl e \<Rightarrow> Inl e
      | Inr (self', dy') \<Rightarrow>
          text_blocks_loop self' loc kwargs (dy' + dy_block) dy_line dy_block bs cs)"

text \<open>
  \<open>text_blocks(loc, blocks, *, dy0, dy_line, dy_block, reverse, colors, **kwargs)\<close>.
  The five keyword-only parameters are explicit arguments, the dictionary holds the
  remaining keywords. The methods of the class that forward their own dictionary
  (\<open>text_block\<close>, \<open>text_blocks_hfill\<close>) pass \<open>loc\<close> and \<open>blocks\<close> by
  position: a key \<open>loc\<close> or \<open>blocks\<close> in the dictionary is a second value for
  that parameter, and the call raises \<open>TypeError\<close> before the body runs. When
  the colours have another length than the blocks, the message of the
  \<open>ValueError\<close> reads \<open>colors\<close>, which was deleted a few lines before, and the
  statement raises \<open>UnboundLocalError\<close>.
\<close>

definition text_blocks ::
  "textbox \<Rightarrow> locarg \<Rightarrow> pytext list list \<Rightarrow> real option \<Rightarrow> real option \<Rightarrow> real option \<Rightarrow> bool
     \<Rightarrow> pyval list option list option \<Rightarrow> kwargs \<Rightarrow> error + textbox" where
  "text_blocks self loc blocks dy0 dy_line dy_block reverse colors kwargs =
     (if kw_has kwargs ''loc'' \<or> kw_has kwargs ''blocks'' then
        Inl (TypeError ''multiple values for argument'')
      else
        let dy_line = (case dy_line of None \<Rightarrow> 2.5 | Some v \<Rightarrow> v);
            dy0 = (case dy0 of None \<Rightarrow> dy_line | Some v \<Rightarrow> v);
            dy_block = (case dy_block of None \<Rightarrow> dy_line | Some v \<Rightarrow> v);
            (c, kw1) = kw_pop kwargs ''c'' (PStr ''black'');
            (default_color, kw2) = kw_pop kw1 ''color'' c
        in case (case colors of
                   None \<Rightarrow> Inr (replicate (length blocks) None)
                 | Some cb \<Rightarrow>
                     if length cb \<noteq> length blocks then Inl (UnboundLocalError ''colors'')
                     else Inr cb) of
             Inl e \<Rightarrow> Inl e
           | Inr colors_blocks \<Rightarrow>
               (case fill_colors default_color blocks colors_blocks of
                  Inl e \<Rightarrow> Inl e
                | Inr filled \<Rightarrow>
                    text_blocks_loop self loc kw2 dy0 dy_line dy_block
                      (if reverse then revert blocks else blocks)
                      (if reverse then revert filled else filled)))"

text \<open>
  \<open>text_block(loc, block, colors=None, **kwargs)\<close> hands its block and its
  colours over as singleton lists: \<open>self.text_blocks(loc, [block],
  colors=[colors], **kwargs)\<close>. A key \<open>blocks\<close> (or \<open>loc\<close>) in the forwarded
  dictionary collides with the positional arguments of that call.
\<close>

definition text_block ::
  "textbox \<Rightarrow> locarg \<Rightarrow> pytext list \<Rightarrow> pyval list option \<Rightarrow> real option \<Rightarrow> real option
     \<Rightarrow> real option \<Rightarrow> bool \<Rightarrow> kwargs \<Rightarrow> error + textbox" where
  "text_block self loc block colors dy0 dy_line dy_block reverse kwargs =
     (if kw_has kwargs ''loc'' \<or> kw_has kwargs ''blocks'' then
        Inl (TypeError ''multiple values for argument'')
      else text_blocks self loc [block] dy0 dy_line dy_block reverse (Some [colors]) kwargs)"

section \<open>Horizontally filled text blocks (plot.py)\<close>

text \<open>\<open>s.split(sep)\<close> for a non-empty separator, and \<open>s.split(c, 1)\<close>.\<close>

function split_from :: "string \<Rightarrow> string \<Rightarrow> string \<Rightarrow> string list" where
  "split_from sep cur s =
     (if sep \<noteq> [] \<and> take (length sep) s = sep then
        rev cur # split_from sep [] (drop (length sep) s)
      else case s of
             [] \<Rightarrow> [rev cur]
           | c # cs \<Rightarrow> split_from sep (c # cur) cs)"
  by pat_completeness auto
termination
proof (relation "measure (\<lambda>(sep, cur, s). length s)")
  show "wf (measure (\<lambda>(sep, cur, s). length s))"
    by simp
next
  fix sep cur s :: string
  assume a: "sep \<noteq> [] \<and> take (length sep) s = sep"
  then have "min (length s) (length sep) = length sep"
    by (metis length_take)
  then have "length sep \<le> length s"
    by simp
  with a show "((sep, [], drop (length sep) s), (sep, cur, s)) \<in> measure (\<lambda>(sep, cur, s). length s)"
    by (cases sep) auto
next
  fix sep cur s :: string and c :: char and cs :: string
  assume "s = c # cs"
  then show "((sep, c # cur, cs), (sep, cur, s)) \<in> measure (\<lambda>(sep, cur, s). length s)"
    by simp
qed

declare split_from.simps [simp del]

definition split :: "string \<Rightarrow> string \<Rightarrow> string list" where
  "split sep s = split_from sep [] s"

definition split1 :: "char \<Rightarrow> string \<Rightarrow> string list" where
  "split1 c s =
     (case dropWhile (\<lambda>d. d \<noteq> c) s of
        [] \<Rightarrow> [s]
      | _ # rest \<Rightarrow> [takeWhile (\<lambda>d. d \<noteq> c) s, rest])"

definition TAB :: char where
  "TAB = CHR 0x09"

definition NL :: char where
  "NL = CHR 0x0A"

text \<open>
  The argument \<open>blocks\<close> is a multi-line string or a list; a block is a multi-line
  string or a list of lines; a line is a string, a tuple, or (as in the legend of
  the concentration plot) some other object such as a \<open>ColorStr\<close>.
\<close>

datatype hline = HStr string | HTuple "pytext list" | HColorStr string pyval

datatype hblock = BlockStr string | BlockList "hline list"

datatype hblocks = BlocksStr string | BlocksList "hblock list"

text \<open>
  One line into its left and right part. A string is split at its first tab; without
  a tab the unpacking of the one-element list raises \<open>ValueError\<close>. A tuple must
  have two elements. A \<open>ColorStr\<close> is no \<open>str\<close> and has no length.
\<close>

fun split_line :: "hline \<Rightarrow> error + (pytext \<times> pytext)" where
  "split_line (HStr line) =
     (case split1 TAB line of
        [str_l, str_r] \<Rightarrow> Inr (Str str_l, Str str_r)
      | _ \<Rightarrow> Inl (ValueError ''not enough values to unpack''))"
| "split_line (HTuple [str_l, str_r]) = Inr (str_l, str_r)"
| "split_line (HTuple line) = Inl (ValueError ''invalid line'')"
| "split_line (HColorStr s c) = Inl (TypeError ''object of type ColorStr has no len()'')"

fun split_lines :: "hline list \<Rightarrow> error + (pytext list \<times> pytext list)" where
  "split_lines [] = Inr ([], [])"
| "split_lines (line # ls) =
     (case split_line line of
        Inl e \<Rightarrow> Inl e
      | Inr (l, r) \<Rightarrow>
          (case split_lines ls of
             Inl e \<Rightarrow> Inl e
           | Inr (lefts, rights) \<Rightarrow> Inr (l # lefts, r # rights)))"

text \<open>The first loop: a string block may hold several blocks, separated by empty lines.\<close>

fun flatten_blocks :: "hblock list \<Rightarrow> hblock list" where
  "flatten_blocks [] = []"
| "flatten_blocks (BlockStr block # bs) =
     map BlockStr (split [NL, NL] (strip block)) @ flatten_blocks bs"
| "flatten_blocks (BlockList block # bs) = BlockList block # flatten_blocks bs"

text \<open>
  The second loop: a string block is stripped and split into its lines; then the
  left and the right parts of all lines are collected, block by block.
\<close>

fun block_lines :: "hblock \<Rightarrow> hline list" where
  "block_lines (BlockStr block) = map HStr (split [NL] (strip block))"
| "block_lines (BlockList block) = block"

fun separate_blocks :: "hblock list \<Rightarrow> error + (pytext list list \<times> pytext list list)" where
  "separate_blocks [] = Inr ([], [])"
| "separate_blocks (block # bs) =
     (case split_lines (block_lines block) of
        Inl e \<Rightarrow> Inl e
      | Inr (lefts, rights) \<Rightarrow>
          (case separate_blocks bs of
             Inl e \<Rightarrow> Inl e
           | Inr (blocks_l, blocks_r) \<Rightarrow> Inr (lefts # blocks_l, rights # blocks_r)))"

text \<open>
  The blocks after the first loop (a string for the whole argument is stripped and
  split at empty lines before), and the lines that the second loop reads in them.
\<close>

definition hfill_blocks :: "hblocks \<Rightarrow> hblock list" where
  "hfill_blocks blocks =
     flatten_blocks (case blocks of
                       BlocksStr b \<Rightarrow> map BlockStr (split [NL, NL] (strip b))
                     | BlocksList bs \<Rightarrow> bs)"

definition hfill_lines :: "hblocks \<Rightarrow> hline list list" where
  "hfill_lines blocks = map block_lines (hfill_blocks blocks)"

text \<open>\<open>-dx_l\<close> for the popped keyword \<open>dx\<close>.\<close>

fun neg_dx :: "pyval \<Rightarrow> error + pyval" where
  "neg_dx PNone = Inr PNone"
| "neg_dx (PNum r) = Inr (PNum (- r))"
| "neg_dx (PBool b) = Inr (PNum (- (if b then 1 else 0)))"
| "neg_dx (PStr s) = Inl (TypeError ''bad operand type for unary -: str'')"

text \<open>
  \<open>text_blocks_hfill(loc_y, blocks, **kwargs)\<close>. The keywords that
  \<open>text_blocks\<close> names are explicit arguments here as well. The parameter
  \<open>loc_y\<close> is not read: the two calls use the locations \<open>bl\<close> and \<open>br\<close>.
  Both calls, \<open>self.text_blocks('bl', blocks_l, dx=dx_l, **kwargs)\<close> and its twin,
  pass the location and the blocks by position, so a key \<open>loc\<close> (or \<open>blocks\<close>)
  left in the dictionary makes the first call raise \<open>TypeError\<close>, after the lines
  are split and before anything is drawn.
\<close>

definition text_blocks_hfill ::
  "textbox \<Rightarrow> locarg \<Rightarrow> hblocks \<Rightarrow> real option \<Rightarrow> real option \<Rightarrow> real option \<Rightarrow> bool
     \<Rightarrow> pyval list option list option \<Rightarrow> kwargs \<Rightarrow> error + textbox" where
  "text_blocks_hfill self loc_y blocks dy0 dy_line dy_block reverse colors kwargs =
     (case separate_blocks (hfill_blocks blocks) of
        Inl e \<Rightarrow> Inl e
      | Inr (blocks_l, blocks_r) \<Rightarrow>
          let (dx_l, kw) = kw_pop kwargs ''dx'' PNone
          in case neg_dx dx_l of
               Inl e \<Rightarrow> Inl e
             | Inr dx_r \<Rightarrow>
                 if kw_has kw ''loc'' \<or> kw_has kw ''blocks'' then
                   Inl (TypeError ''multiple values for argument'')
                 else
                   (case text_blocks self (LStr ''bl'') blocks_l dy0 dy_line dy_block reverse
                           colors ((''dx'', dx_l) # kw) of
                      Inl e \<Rightarrow> Inl e
                    | Inr self' \<Rightarrow>
                        text_blocks self' (LStr ''br'') blocks_r dy0 dy_line dy_block reverse
                          colors ((''dx'', dx_r) # kw)))"

text \<open>
  \<open>text_block_hfill(loc_y, block, **kwargs)\<close> is the call
  \<open>self.text_blocks_hfill(loc_y, [block], **kwargs)\<close>: a key \<open>loc_y\<close> or
  \<open>blocks\<close> in the forwarded dictionary collides with its positional arguments
  (a key \<open>loc\<close> collides further down, in \<open>text_blocks_hfill\<close>).
\<close>

definition text_block_hfill ::
  "textbox \<Rightarrow> locarg \<Rightarrow> hblock \<Rightarrow> real option \<Rightarrow> real option \<Rightarrow> real option \<Rightarrow> bool
     \<Rightarrow> pyval list option list option \<Rightarrow> kwargs \<Rightarrow> error + textbox" where
  "text_block_hfill self loc_y block dy0 dy_line dy_block reverse colors kwargs =
     (if kw_has kwargs ''loc_y'' \<or> kw_has kwargs ''blocks'' then
        Inl (TypeError ''multiple values for argument'')
      else text_blocks_hfill self loc_y (BlocksList [block]) dy0 dy_line dy_block reverse colors
             kwargs)"

text \<open>A sample text box for the evaluations below.\<close>

definition box0 :: textbox where
  "box0 = \<lparr>unit_dx = 1/25, unit_dy = 1/10, show_baseline = False, baseline_kwargs = [],
     calls = []\<rparr>"

section \<open>What a block placement is expected to draw\<close>

text \<open>
  The text calls among the recorded calls (the baseline lines of the debugging
  switch left out).
\<close>

fun is_text :: "draw_call \<Rightarrow> bool" where
  "is_text (AxText x y s kw) = True"
| "is_text (AxHLine y kw) = False"

definition text_calls :: "textbox \<Rightarrow> draw_call list" where
  "text_calls self = filter is_text (calls self)"

text \<open>
  The lines of a list of blocks in drawing order, each with its vertical offset and
  its colour: the offset grows by \<open>dy_line\<close> after every line and by
  \<open>dy_block\<close> after every block.
\<close>

fun lines_plan :: "real \<Rightarrow> real \<Rightarrow> 'a list \<Rightarrow> pyval list \<Rightarrow> ('a \<times> real \<times> pyval) list" where
  "lines_plan dy dy_line [] cs = []"
| "lines_plan dy dy_line (x # xs) [] = []"
| "lines_plan dy dy_line (x # xs) (c # cs) = (x, dy, c) # lines_plan (dy + dy_line) dy_line xs cs"

fun lines_end :: "real \<Rightarrow> real \<Rightarrow> 'a list \<Rightarrow> real" where
  "lines_end dy dy_line [] = dy"
| "lines_end dy dy_line (x # xs) = lines_end (dy + dy_line) dy_line xs"

fun blocks_plan ::
  "real \<Rightarrow> real \<Rightarrow> real \<Rightarrow> 'a list list \<Rightarrow> pyval list list \<Rightarrow> ('a \<times> real \<times> pyval) list" where
  "blocks_plan dy dy_line dy_block [] cs = []"
| "blocks_plan dy dy_line dy_block (b # bs) [] = []"
| "blocks_plan dy dy_line dy_block (b # bs) (c # cs) =
     lines_plan dy dy_line b c
     @ blocks_plan (lines_end dy dy_line b + dy_block) dy_line dy_block bs cs"

text \<open>
  Keyword dictionaries that leave position and alignment to the placement: none of
  the keys that \<open>text\<close> reads, none that collides with an argument of the calls
  made on the way (\<open>loc\<close>, \<open>blocks\<close>, \<open>s\<close>, \<open>dy\<close>, \<open>x\<close>, \<open>y\<close>),
  and none that names a parameter given explicitly here.
\<close>

definition reserved_keys :: "string list" where
  "reserved_keys =
     [''dx'', ''s'', ''dy'', ''ha'', ''va'', ''horizontalalignment'', ''verticalalignment'',
      ''x'', ''y'', ''loc'', ''blocks'', ''loc_y'', ''block'', ''dy0'', ''dy_line'',
      ''dy_block'', ''reverse'', ''colors'']"

definition plain_kwargs :: "kwargs \<Rightarrow> bool" where
  "plain_kwargs kw = list_all (\<lambda>k. \<not> kw_has kw k) reserved_keys"

text \<open>Line colours that have a row for every block and an entry for every line.\<close>

definition colors_fit :: "'a list list \<Rightarrow> pyval list option list option \<Rightarrow> bool" where
  "colors_fit bs colors =
     (case colors of
        None \<Rightarrow> True
      | Some cb \<Rightarrow>
          list_all2 (\<lambda>b c. case c of None \<Rightarrow> True | Some r \<Rightarrow> length b \<le> length r) bs cb)"

text \<open>The keywords of a call \<open>text_blocks_hfill(loc_y, blocks, dx=dx, **kw)\<close>.\<close>

definition with_dx :: "real option \<Rightarrow> kwargs \<Rightarrow> kwargs" where
  "with_dx dx kw = (case dx of None \<Rightarrow> kw | Some d \<Rightarrow> (''dx'', PNum d) # kw)"

definition before_tab :: "string \<Rightarrow> string" where
  "before_tab line = takeWhile (\<lambda>c. c \<noteq> TAB) line"

definition after_tab :: "string \<Rightarrow> string" where
  "after_tab line = tl (dropWhile (\<lambda>c. c \<noteq> TAB) line)"

text \<open>
  The text call expected for one planned line at the location \<open>l\<close>: the anchor of
  the location shifted by \<open>dx\<close> and by the line's offset (in unit distances), the
  colour first in the dictionary (the colour of a \<open>ColorStr\<close> wins over the
  line's colour) and the alignments of the location last.
\<close>

fun text_color :: "pytext \<Rightarrow> pyval \<Rightarrow> pyval" where
  "text_color (Str s) c = c"
| "text_color (ColorStr s c') c = c'"

definition expected_text ::
  "real \<Rightarrow> real \<Rightarrow> vloc \<times> hloc \<Rightarrow> kwargs \<Rightarrow> real \<Rightarrow> pytext \<times> real \<times> pyval \<Rightarrow> draw_call" where
  "expected_text udx udy l kw dx =
     (\<lambda>(s, dy, c).
        AxText (get_x0 l udx + dx * udx) (get_y0 l udy + dy * udy) s
          (((''color'', text_color s c) # kw)
           @ [(''ha'', PStr (get_ha l)), (''va'', PStr (get_va l))]))"

text \<open>
  The lines that \<open>text_blocks_hfill\<close> can split, a string with a tab or a tuple
  of two elements, and the two parts of such a line.
\<close>

fun splittable :: "hline \<Rightarrow> bool" where
  "splittable (HStr line) = (TAB \<in> set line)"
| "splittable (HTuple line) = (length line = 2)"
| "splittable (HColorStr s c) = False"

fun left_part :: "hline \<Rightarrow> pytext" where
  "left_part (HStr line) = Str (before_tab line)"
| "left_part (HTuple (l # rest)) = l"
| "left_part (HTuple []) = Str []"
| "left_part (HColorStr s c) = Str []"

fun right_part :: "hline \<Rightarrow> pytext" where
  "right_part (HStr line) = Str (after_tab line)"
| "right_part (HTuple (l # r # rest)) = r"
| "right_part (HTuple [l]) = Str []"
| "right_part (HTuple []) = Str []"
| "right_part (HColorStr s c) = Str []"

text \<open>The horizontal offset that \<open>text\<close> derives from the keyword \<open>dx\<close>.\<close>

definition dx_value :: "real option \<Rightarrow> real" where
  "dx_value dx = (case dx of None \<Rightarrow> 0 | Some d \<Rightarrow> d)"

text \<open>The keyword \<open>dx\<close> as \<open>text_blocks_hfill\<close> passes it on (\<open>None\<close> included).\<close>

definition dx_arg :: "real option \<Rightarrow> pyval" where
  "dx_arg dx = (case dx of None \<Rightarrow> PNone | Some d \<Rightarrow> PNum d)"

text \<open>
  The fall-back colour that \<open>text_blocks\<close> pops from the keywords, the keywords
  without the colour keys, the rows of colours before they are filled, and the value
  of an optional offset.
\<close>

definition default_color_of :: "kwargs \<Rightarrow> pyval" where
  "default_color_of kw = kw_get (AList.delete ''c'' kw) ''color'' (kw_get kw ''c'' (PStr ''black''))"

definition uncolored :: "kwargs \<Rightarrow> kwargs" where
  "uncolored kw = AList.delete ''color'' (AList.delete ''c'' kw)"

definition colors_blocks_of :: "nat \<Rightarrow> pyval list option list option \<Rightarrow> pyval list option list" where
  "colors_blocks_of n colors = (case colors of None \<Rightarrow> replicate n None | Some cb \<Rightarrow> cb)"

definition or_default :: "real option \<Rightarrow> real \<Rightarrow> real" where
  "or_default v d = (case v of None \<Rightarrow> d | Some x \<Rightarrow> x)"

section \<open>Evaluation lemmas\<close>

lemma str_nat_small: "n < 10 \<Longrightarrow> str_nat n = [digit_char n]"
  by (subst str_nat.simps) simp

lemma str_nat_big: "\<not> n < 10 \<Longrightarrow> str_nat n = str_nat (n div 10) @ [digit_char n]"
  by (subst str_nat.simps) simp

lemma exp_up_step: "10 \<le> x \<Longrightarrow> exp_up x = Suc (exp_up (x / 10))"
  by (subst exp_up.simps) simp

lemma exp_up_stop: "x < 10 \<Longrightarrow> exp_up x = 0"
  by (subst exp_up.simps) simp

lemma exp_down_step: "0 < x \<Longrightarrow> x < 1 \<Longrightarrow> exp_down x = Suc (exp_down (x * 10))"
  using exp_down.simps [of x] by simp

lemma exp_down_stop: "1 \<le> x \<Longrightarrow> exp_down x = 0"
  using exp_down.simps [of x] by simp

lemma exp_down_nonpos: "x \<le> 0 \<Longrightarrow> exp_down x = 0"
  using exp_down.simps [of x] by simp

lemma replicate_numeral: "replicate (numeral n) x = x # replicate (pred_numeral n) x"
  by (simp add: numeral_eq_Suc)

text \<open>
  Concrete numbers are formatted in stages: unfold the format and find the exponent,
  round, split at the decimal point, render the digits.
\<close>

lemmas fmt_unfold =
  fmt_f_def fmt_E_def fmt_percent_def exp_up_step exp_up_stop exp_down_step exp_down_stop
  exp_down_nonpos Let_def

lemmas fmt_round = round_half_even_def

lemmas fmt_point = point_digits_def

lemmas fmt_digits = zfill_def str_nat_small str_nat_big digit_char_def replicate_numeral

section \<open>BoxLocation\<close>

lemma BoxLocation_digit_short_agree:
  "BoxLocation (LStr ''00'') = BoxLocation (LStr ''bl'')"
  "BoxLocation (LStr ''01'') = BoxLocation (LStr ''bc'')"
  "BoxLocation (LStr ''02'') = BoxLocation (LStr ''br'')"
  "BoxLocation (LStr ''10'') = BoxLocation (LStr ''cl'')"
  "BoxLocation (LStr ''11'') = BoxLocation (LStr ''cc'')"
  "BoxLocation (LStr ''12'') = BoxLocation (LStr ''cr'')"
  "BoxLocation (LStr ''20'') = BoxLocation (LStr ''tl'')"
  "BoxLocation (LStr ''21'') = BoxLocation (LStr ''tc'')"
  "BoxLocation (LStr ''22'') = BoxLocation (LStr ''tr'')"
  "BoxLocation (LStr ''center'') = BoxLocation (LStr ''cc'')"
  by (simp_all add: BoxLocation_def prepare_loc_def eval_loc_vert_def eval_loc_horz_def)

lemma BoxLocation_other_length:
  "length s \<noteq> 2 \<Longrightarrow> s \<noteq> ''center'' \<Longrightarrow> BoxLocation (LStr s) = Inl (NameError ''line'')"
  by (simp add: BoxLocation_def prepare_loc_def)

text \<open>
  Claim C1. The digit code, the short code and the long string of one anchor are
  meant to resolve to the same alignments and baselines. The digit and short forms
  do; every long string of two words reaches the branch that reads the unbound name
  \<open>line\<close> and raises \<open>NameError\<close>, so no long form resolves (and the failure is not
  the invalid-location \<open>ValueError\<close>). The theorem evaluates the constructor at
  the long form \<open>bottom left\<close> next to its two sibling forms.
\<close>

theorem BoxLocation_long_form_raises:
  "BoxLocation (LStr ''bottom left'') = Inl (NameError ''line'')
   \<and> BoxLocation (LStr ''bl'') = Inr (Vb, Hl)
   \<and> BoxLocation (LStr ''00'') = Inr (Vb, Hl)"
  by (simp add: BoxLocation_def prepare_loc_def eval_loc_vert_def eval_loc_horz_def)

section \<open>Colour sequences\<close>

lemma colors_core_length:
  "colors_core n = Some core \<Longrightarrow> int (length core) = n - 1"
  by (auto simp: colors_core_def colors_core_4_def colors_core_5_def colors_core_6_def
      colors_core_7_def colors_core_8_def split: if_splits)

lemma colors_core_defined: "5 \<le> n \<Longrightarrow> n \<le> 9 \<Longrightarrow> colors_core n \<noteq> None"
proof -
  assume "5 \<le> n" "n \<le> 9"
  then have "n = 5 \<or> n = 6 \<or> n = 7 \<or> n = 8 \<or> n = 9" by arith
  then show ?thesis by (auto simp: colors_core_def)
qed

lemma colors_core_undefined: "n < 5 \<or> 9 < n \<Longrightarrow> colors_core n = None"
  by (auto simp: colors_core_def)

text \<open>
  Claim C8. For a level count from 5 to 9 and one of the four extend modes,
  \<open>colors_flexplot\<close> returns the core palette of that level count (which has one
  colour less than there are levels), with \<open>darkgray\<close> in front exactly for
  \<open>min\<close> and \<open>both\<close> and \<open>lightgray\<close> at the end exactly for \<open>max\<close> and
  \<open>both\<close>; so for 6 levels and \<open>both\<close> the result has two colours more than the
  core palette, the first being the under gray and the last the over gray. For any
  other level count the function raises the \<open>ValueError\<close> that names the count,
  whatever the extend mode.
\<close>

theorem colors_flexplot_spec:
  "(5 \<le> n \<and> n \<le> 9 \<and> ext \<in> {''none'', ''min'', ''max'', ''both''} \<longrightarrow>
      (\<exists>core. colors_core n = Some core \<and> int (length core) = n - 1 \<and>
         colors_flexplot n ext =
           Inr ((if ext \<in> {''min'', ''both''} then [''darkgray''] else []) @ core @
                (if ext \<in> {''max'', ''both''} then [''lightgray''] else []))))
   \<and> (\<exists>core6 cs. colors_core 6 = Some core6 \<and> colors_flexplot 6 ''both'' = Inr cs \<and>
         length cs = length core6 + 2 \<and> hd cs = ''darkgray'' \<and> last cs = ''lightgray'')
   \<and> (n < 5 \<or> 9 < n \<longrightarrow> colors_flexplot n ext = Inl (ValueError (''n_levels='' @ str_int n)))"
proof (intro conjI impI)
  assume a: "5 \<le> n \<and> n \<le> 9 \<and> ext \<in> {''none'', ''min'', ''max'', ''both''}"
  then obtain core where c: "colors_core n = Some core"
    using colors_core_defined [of n] by auto
  have "colors_flexplot n ext =
           Inr ((if ext \<in> {''min'', ''both''} then [''darkgray''] else []) @ core @
                (if ext \<in> {''max'', ''both''} then [''lightgray''] else []))"
    using a c by (auto simp: colors_flexplot_def color_under_def color_over_def)
  with c colors_core_length [OF c]
  show "\<exists>core. colors_core n = Some core \<and> int (length core) = n - 1 \<and>
         colors_flexplot n ext =
           Inr ((if ext \<in> {''min'', ''both''} then [''darkgray''] else []) @ core @
                (if ext \<in> {''max'', ''both''} then [''lightgray''] else []))"
    by blast
next
  show "\<exists>core6 cs. colors_core 6 = Some core6 \<and> colors_flexplot 6 ''both'' = Inr cs \<and>
         length cs = length core6 + 2 \<and> hd cs = ''darkgray'' \<and> last cs = ''lightgray''"
    by (simp add: colors_flexplot_def colors_core_def color_under_def color_over_def)
next
  assume "n < 5 \<or> 9 < n"
  then show "colors_flexplot n ext = Inl (ValueError (''n_levels='' @ str_int n))"
    by (simp add: colors_flexplot_def colors_core_undefined)
qed

theorem colors_flexplot_spec_witness:
  "colors_flexplot 6 ''both'' =
     Inr [''darkgray'', ''violet'', ''rebeccapurple'', ''forestgreen'', ''yellowgreen'',
          ''yellow'', ''lightgray'']
   \<and> colors_flexplot 7 ''min'' =
     Inr [''darkgray'', ''violet'', ''rebeccapurple'', ''cornflowerblue'', ''forestgreen'',
          ''yellowgreen'', ''yellow'']
   \<and> colors_flexplot 4 ''max'' = Inl (ValueError ''n_levels=4'')
   \<and> colors_flexplot 10 ''none'' = Inl (ValueError ''n_levels=10'')"
  using colors_flexplot_spec [of 6 "''both''"] colors_flexplot_spec [of 7 "''min''"]
    colors_flexplot_spec [of 4 "''max''"] colors_flexplot_spec [of 10 "''none''"]
  by (simp add: colors_core_def colors_core_5_def colors_core_6_def colors_core_8_def
      str_int_def str_nat_small str_nat_big digit_char_def)

section \<open>Layout of the text boxes\<close>

lemma overlap_iff_common_point: "overlap r s \<longleftrightarrow> (\<exists>x y. inside r x y \<and> inside s x y)"
proof
  assume o: "overlap r s"
  define x where "x = (max (left r) (left s) + min (left r + width r) (left s + width s)) / 2"
  define y where
    "y = (max (bottom r) (bottom s) + min (bottom r + height r) (bottom s + height s)) / 2"
  have "inside r x y \<and> inside s x y"
    using o unfolding overlap_def inside_def x_def y_def by (auto simp: max_def min_def field_simps split: if_splits)
  then show "\<exists>x y. inside r x y \<and> inside s x y" by blast
next
  assume "\<exists>x y. inside r x y \<and> inside s x y"
  then show "overlap r s"
    unfolding overlap_def inside_def by (auto simp: max_def min_def)
qed

lemma no_overlap_beside: "left r + width r \<le> left s \<Longrightarrow> \<not> overlap r s"
  by (auto simp: overlap_def)

lemma no_overlap_below: "bottom r + height r \<le> bottom s \<Longrightarrow> \<not> overlap r s"
  by (auto simp: overlap_def)

lemma no_overlap_above: "bottom s + height s \<le> bottom r \<Longrightarrow> \<not> overlap r s"
  by (auto simp: overlap_def)

text \<open>
  Claim C2, as the claim states it, fails: the two right boxes are each shortened by
  half a vertical padding, so their heights and half a padding (vertical or
  horizontal) do not add up to the map height. Figure of 1200 by 900 pixels, map of
  0.6 by 0.8 figure units, default fractions.
\<close>

theorem fig_add_text_boxes_half_padding_counterexample:
  "\<not> (height (axs_box (fig_add_text_boxes 1200 900 (6/10) (8/10) (1/10) (1/4) (15/1000)) ! 1)
       + height (axs_box (fig_add_text_boxes 1200 900 (6/10) (8/10) (1/10) (1/4) (15/1000)) ! 2)
       + (15/1000 * (6/10) * (1200/900)) / 2
       = height (ax_ref_position (fig_add_text_boxes 1200 900 (6/10) (8/10) (1/10) (1/4) (15/1000))))
   \<and> \<not> (height (axs_box (fig_add_text_boxes 1200 900 (6/10) (8/10) (1/10) (1/4) (15/1000)) ! 1)
       + height (axs_box (fig_add_text_boxes 1200 900 (6/10) (8/10) (1/10) (1/4) (15/1000)) ! 2)
       + (15/1000 * (6/10)) / 2
       = height (ax_ref_position (fig_add_text_boxes 1200 900 (6/10) (8/10) (1/10) (1/4) (15/1000))))"
  by (simp add: fig_add_text_boxes_def mk_rect_def Let_def)

text \<open>
  Claim C2, amended. For a figure of positive pixel extent, a map of positive width
  and height and a positive padding fraction, with \<open>pad_hor = pad_hor_rel * w_map\<close> and
  \<open>pad_ver = pad_hor * fig_aspect\<close>: three boxes are built; both right boxes
  start at map left + map width + \<open>pad_hor\<close>; the right-top box has height
  \<open>0.4 * h_map - pad_ver / 2\<close> and the right-bottom box
  \<open>0.6 * h_map - pad_ver / 2\<close>, so the two heights and one whole vertical padding
  add up to the map height; and no two of the four rectangles (map, top, right top,
  right bottom) overlap.
\<close>

theorem fig_add_text_boxes_layout:
  assumes "0 < fig_pxs_width" and "0 < fig_pxs_height" and "0 < w_map" and "0 < h_map"
    and "0 < pad_hor_rel"
  shows "\<exists>m top rt rb.
     ax_ref_position (fig_add_text_boxes fig_pxs_width fig_pxs_height w_map h_map h_rel w_rel pad_hor_rel) = m
     \<and> axs_box (fig_add_text_boxes fig_pxs_width fig_pxs_height w_map h_map h_rel w_rel pad_hor_rel) = [top, rt, rb]
     \<and> width m = w_map \<and> height m = h_map
     \<and> left rt = left m + width m + pad_hor_rel * w_map
     \<and> left rb = left m + width m + pad_hor_rel * w_map
     \<and> height rt = 0.4 * h_map - (pad_hor_rel * w_map * (fig_pxs_width / fig_pxs_height)) / 2
     \<and> height rb = 0.6 * h_map - (pad_hor_rel * w_map * (fig_pxs_width / fig_pxs_height)) / 2
     \<and> height rt + height rb + pad_hor_rel * w_map * (fig_pxs_width / fig_pxs_height) = height m
     \<and> \<not> overlap m top \<and> \<not> overlap m rt \<and> \<not> overlap m rb
     \<and> \<not> overlap top rt \<and> \<not> overlap top rb \<and> \<not> overlap rt rb"
proof -
  define ph where "ph = pad_hor_rel * w_map"
  define pv where "pv = pad_hor_rel * w_map * (fig_pxs_width / fig_pxs_height)"
  define m where "m = mk_rect 0.05 0.05 w_map h_map"
  define top where "top = mk_rect 0.05 (0.05 + pv + h_map) (w_map + ph + w_rel * w_map) (h_rel * h_map)"
  define rt where "rt = mk_rect (0.05 + ph + w_map) (0.05 + 0.5 * pv + (1.0 - 0.4) * h_map)
      (w_rel * w_map) (0.4 * h_map - 0.5 * pv)"
  define rb where "rb = mk_rect (0.05 + ph + w_map) 0.05 (w_rel * w_map) ((1.0 - 0.4) * h_map - 0.5 * pv)"
  have ph: "0 < ph"
    using assms by (simp add: ph_def)
  have pv: "0 < pv"
    using assms by (simp add: pv_def)
  have pos: "ax_ref_position (fig_add_text_boxes fig_pxs_width fig_pxs_height w_map h_map h_rel w_rel pad_hor_rel) = m"
    by (simp add: fig_add_text_boxes_def Let_def m_def)
  have boxes: "axs_box (fig_add_text_boxes fig_pxs_width fig_pxs_height w_map h_map h_rel w_rel pad_hor_rel) = [top, rt, rb]"
    by (simp add: fig_add_text_boxes_def Let_def top_def rt_def rb_def ph_def pv_def mult_ac)
  have dims: "width m = w_map \<and> height m = h_map"
    by (simp add: m_def mk_rect_def)
  have xs: "left rt = left m + width m + ph \<and> left rb = left m + width m + ph"
    by (simp add: m_def rt_def rb_def mk_rect_def)
  have hs: "height rt = 0.4 * h_map - pv / 2 \<and> height rb = 0.6 * h_map - pv / 2"
    by (simp add: rt_def rb_def mk_rect_def)
  have total: "height rt + height rb + pv = height m"
    using hs dims by simp
  have o1: "\<not> overlap m top"
    using pv by (intro no_overlap_below) (simp add: m_def top_def mk_rect_def)
  have o2: "\<not> overlap m rt"
    using ph by (intro no_overlap_beside) (simp add: m_def rt_def mk_rect_def)
  have o3: "\<not> overlap m rb"
    using ph by (intro no_overlap_beside) (simp add: m_def rb_def mk_rect_def)
  have o4: "\<not> overlap top rt"
    using pv by (intro no_overlap_above) (simp add: top_def rt_def mk_rect_def)
  have o5: "\<not> overlap top rb"
    using pv \<open>0 < h_map\<close> by (intro no_overlap_above) (simp add: top_def rb_def mk_rect_def)
  have o6: "\<not> overlap rt rb"
    using pv by (intro no_overlap_above) (simp add: rt_def rb_def mk_rect_def)
  show ?thesis
    using pos boxes dims xs hs total o1 o2 o3 o4 o5 o6
    unfolding ph_def pv_def by blast
qed

theorem fig_add_text_boxes_layout_witness:
  "axs_box (fig_add_text_boxes 1200 900 (6/10) (8/10) (1/10) (1/4) (15/1000)) =
     [mk_rect (5/100) (862/1000) (759/1000) (8/100),
      mk_rect (659/1000) (536/1000) (15/100) (314/1000),
      mk_rect (659/1000) (5/100) (15/100) (474/1000)]
   \<and> \<not> overlap (mk_rect (659/1000) (536/1000) (15/100) (314/1000))
                (mk_rect (659/1000) (5/100) (15/100) (474/1000))"
  using fig_add_text_boxes_layout [of 1200 900 "6/10" "8/10" "15/1000" "1/10" "1/4"]
  by (simp add: fig_add_text_boxes_def mk_rect_def Let_def)

section \<open>Legend labels and contour colours\<close>

lemma length_linspace01: "length (linspace01 num) = num"
  by (simp add: linspace01_def)

text \<open>
  Claim C3, as the claim states it, fails at its own example: for the levels
  1, 10, 100 (decimal logarithms 0, 1, 2) and the extend mode \<open>max\<close> there are
  three labels and three colours, not four. The colour map is the identity on the
  sampling points and the float rendering a table for the three levels.
\<close>

theorem format_level_ranges_example_counterexample:
  "map_add_particle_concentrations_with (\<lambda>x. x) [0, 1, 2] ''max''
     = Inr \<lparr>attr_levels = [1, 10, 100], attr_extend = ''max'', attr_colors = [1/3, 2/3, 1]\<rparr>
   \<and> format_level_ranges (\<lambda>l. if l = 1 then ''1'' else if l = 10 then ''10'' else ''100'')
       \<lparr>attr_levels = [1, 10, 100], attr_extend = ''max'', attr_colors = [1/3, 2/3, 1 :: real]\<rparr>
     = Inr [''     1 > 10    '', ''    10 > 100   '', ''       > 100   '']
   \<and> length [''     1 > 10    '', ''    10 > 100   '', ''       > 100   ''] \<noteq> 4
   \<and> length [1/3, 2/3, 1 :: real] \<noteq> 4"
  by (simp add: map_add_particle_concentrations_with_def linspace01_def upt_rec
      format_level_ranges_def format_label_def format_level_def strip_def py_isspace_def
      rjust_def ljust_def Let_def eval_nat_numeral)

lemma length_zip_butlast_tl: "length (zip (butlast xs) (tl xs)) = length xs - 1"
  by simp

text \<open>
  Claim C3, amended. For every non-empty level ladder and every extend mode among
  \<open>none\<close>, \<open>min\<close>, \<open>max\<close>, \<open>both\<close>, the colours are selected, the legend
  formatter returns (its assertion holds), and the list of labels is exactly as long
  as the list of colours: one label per pair of neighbouring levels, plus one for
  the under bin and one for the over bin where the extend mode has them. For the
  levels 1, 10, 100 and \<open>max\<close> that is 3 labels and 3 colours.
\<close>

theorem format_level_ranges_length:
  assumes "levels_log10 \<noteq> []" and "ext \<in> {''none'', ''min'', ''max'', ''both''}"
  shows "\<exists>self labels.
     map_add_particle_concentrations_with cmap levels_log10 ext = Inr self
     \<and> format_level_ranges g self = Inr labels
     \<and> length labels = length (attr_colors self)
     \<and> length (attr_levels self) = length levels_log10
     \<and> length labels =
         length levels_log10 - 1 + (if ext \<in> {''min'', ''both''} then 1 else 0)
           + (if ext \<in> {''max'', ''both''} then 1 else 0)"
proof -
  define n where "n = length levels_log10"
  have n: "0 < n"
    using assms(1) by (simp add: n_def)
  consider "ext = ''none''" | "ext = ''min''" | "ext = ''max''" | "ext = ''both''"
    using assms(2) by auto
  then show ?thesis
  proof cases
    case 1
    then show ?thesis
      using n
      by (simp add: map_add_particle_concentrations_with_def format_level_ranges_def Let_def
          n_def [symmetric] length_linspace01)
  next
    case 2
    then show ?thesis
      using n assms(1)
      by (simp add: map_add_particle_concentrations_with_def format_level_ranges_def Let_def
          n_def [symmetric] length_linspace01)
  next
    case 3
    then show ?thesis
      using n assms(1)
      by (simp add: map_add_particle_concentrations_with_def format_level_ranges_def Let_def
          n_def [symmetric] length_linspace01)
  next
    case 4
    then show ?thesis
      using n assms(1)
      by (simp add: map_add_particle_concentrations_with_def format_level_ranges_def Let_def
          n_def [symmetric] length_linspace01)
  qed
qed

theorem format_level_ranges_length_witness:
  "\<exists>labels.
     map_add_particle_concentrations_with (\<lambda>x. x) [0, 1, 2] ''max''
       = Inr \<lparr>attr_levels = [1, 10, 100], attr_extend = ''max'', attr_colors = [1/3, 2/3, 1]\<rparr>
     \<and> format_level_ranges (\<lambda>l. ''1'')
           \<lparr>attr_levels = [1, 10, 100], attr_extend = ''max'', attr_colors = [1/3, 2/3, 1 :: real]\<rparr>
         = Inr labels
     \<and> length labels = 3"
proof -
  have h1: "[0, 1, 2 :: real] \<noteq> []"
    by simp
  have h2: "''max'' \<in> {''none'', ''min'', ''max'', ''both''}"
    by simp
  obtain self labels where
    a: "map_add_particle_concentrations_with (\<lambda>x. x) [0, 1, 2] ''max'' = Inr self" and
    b: "format_level_ranges (\<lambda>l. ''1'') self = Inr labels" and
    c: "length labels = length (attr_colors self)"
    using format_level_ranges_length [OF h1 h2, of "\<lambda>x. x" "\<lambda>l. ''1''"] by blast
  have s: "map_add_particle_concentrations_with (\<lambda>x. x) [0, 1, 2] ''max''
       = Inr \<lparr>attr_levels = [1, 10, 100], attr_extend = ''max'', attr_colors = [1/3, 2/3, 1]\<rparr>"
    by (simp add: map_add_particle_concentrations_with_def linspace01_def upt_rec Let_def)
  from a s have self: "self = \<lparr>attr_levels = [1, 10, 100], attr_extend = ''max'', attr_colors = [1/3, 2/3, 1]\<rparr>"
    by simp
  from c self have "length labels = 3"
    by simp
  with s b self show ?thesis
    by blast
qed

section \<open>The field maximum in the legend box\<close>

lemma fmt_f_examples:
  "fmt_f 5 (5/1000) = ''0.00500''"
  "fmt_f 4 (456/10000) = ''0.0456''"
  "fmt_f 3 (456/1000) = ''0.456''"
  "fmt_f 2 (456/100) = ''4.56''"
  "fmt_f 1 (456/10) = ''45.6''"
  "fmt_f 0 456 = ''456''"
  apply (simp_all add: fmt_unfold)
  apply (simp_all add: fmt_round)
  apply (simp_all add: fmt_point)
  apply (simp_all add: fmt_digits)
  done

lemma fmt_E_examples:
  "fmt_E 2 45600 = ''4.56E+04''"
  "fmt_E 2 (5/10000) = ''5.00E-04''"
  "fmt_E 2 9996 = ''1.00E+04''"
  apply (simp_all add: fmt_unfold)
  apply (simp_all add: fmt_round)
  apply (simp_all add: fmt_point)
  apply (simp_all add: fmt_digits)
  done

text \<open>
  Claim C4, as the claim states it, fails at its first example: 0.0456 is not below
  0.01, it falls into the row from 0.01 to 0.1 of the table, which has four
  decimals, and the string is \<open>0.0456\<close>.
\<close>

theorem s_val_of_max_example_counterexample:
  "s_val_of_max (456/10000) = ''0.0456'' \<and> s_val_of_max (456/10000) \<noteq> ''0.04560''"
  using fmt_f_examples(2) by (simp add: s_val_of_max_def)

text \<open>
  Claim C4, amended. The field maximum is formatted with 5 decimals from 0.001 to
  0.01, 4 decimals from 0.01 to 0.1, 3 from 0.1 to 1, 2 from 1 to 10, 1 from 10 to
  100, none from 100 to 1000 (lower bounds included, upper bounds excluded), and in
  scientific notation with a two-decimal mantissa from 1000 on and below 0.001; so
  0.0456, 4.56, 456 and 45600 give \<open>0.0456\<close>, \<open>4.56\<close>, \<open>456\<close> and
  \<open>4.56E+04\<close>.
\<close>

theorem s_val_of_max_table:
  "(0.001 \<le> x \<and> x < 0.01 \<longrightarrow> s_val_of_max x = fmt_f 5 x)
   \<and> (0.01 \<le> x \<and> x < 0.1 \<longrightarrow> s_val_of_max x = fmt_f 4 x)
   \<and> (0.1 \<le> x \<and> x < 1 \<longrightarrow> s_val_of_max x = fmt_f 3 x)
   \<and> (1 \<le> x \<and> x < 10 \<longrightarrow> s_val_of_max x = fmt_f 2 x)
   \<and> (10 \<le> x \<and> x < 100 \<longrightarrow> s_val_of_max x = fmt_f 1 x)
   \<and> (100 \<le> x \<and> x < 1000 \<longrightarrow> s_val_of_max x = fmt_f 0 x)
   \<and> (x < 0.001 \<or> 1000 \<le> x \<longrightarrow> s_val_of_max x = fmt_E 2 x)
   \<and> s_val_of_max (456/10000) = ''0.0456''
   \<and> s_val_of_max (456/100) = ''4.56''
   \<and> s_val_of_max 456 = ''456''
   \<and> s_val_of_max 45600 = ''4.56E+04''"
proof -
  have rows: "(0.001 \<le> x \<and> x < 0.01 \<longrightarrow> s_val_of_max x = fmt_f 5 x)
   \<and> (0.01 \<le> x \<and> x < 0.1 \<longrightarrow> s_val_of_max x = fmt_f 4 x)
   \<and> (0.1 \<le> x \<and> x < 1 \<longrightarrow> s_val_of_max x = fmt_f 3 x)
   \<and> (1 \<le> x \<and> x < 10 \<longrightarrow> s_val_of_max x = fmt_f 2 x)
   \<and> (10 \<le> x \<and> x < 100 \<longrightarrow> s_val_of_max x = fmt_f 1 x)
   \<and> (100 \<le> x \<and> x < 1000 \<longrightarrow> s_val_of_max x = fmt_f 0 x)
   \<and> (x < 0.001 \<or> 1000 \<le> x \<longrightarrow> s_val_of_max x = fmt_E 2 x)"
    by (auto simp: s_val_of_max_def)
  have ex: "s_val_of_max (456/10000) = ''0.0456'' \<and> s_val_of_max (456/100) = ''4.56''
    \<and> s_val_of_max 456 = ''456'' \<and> s_val_of_max 45600 = ''4.56E+04''"
    using fmt_f_examples fmt_E_examples by (simp add: s_val_of_max_def)
  from rows ex show ?thesis
    by blast
qed

theorem s_val_of_max_table_witness:
  "s_val_of_max (5/1000) = ''0.00500''
   \<and> s_val_of_max (456/10000) = ''0.0456''
   \<and> s_val_of_max (456/1000) = ''0.456''
   \<and> s_val_of_max (456/100) = ''4.56''
   \<and> s_val_of_max (456/10) = ''45.6''
   \<and> s_val_of_max 456 = ''456''
   \<and> s_val_of_max 45600 = ''4.56E+04''
   \<and> s_val_of_max (5/10000) = ''5.00E-04''"
proof -
  have "s_val_of_max (5/1000) = fmt_f 5 (5/1000)"
    using s_val_of_max_table [of "5/1000"] by simp
  moreover have "s_val_of_max (456/10000) = fmt_f 4 (456/10000)"
    using s_val_of_max_table [of "456/10000"] by simp
  moreover have "s_val_of_max (456/1000) = fmt_f 3 (456/1000)"
    using s_val_of_max_table [of "456/1000"] by simp
  moreover have "s_val_of_max (456/100) = fmt_f 2 (456/100)"
    using s_val_of_max_table [of "456/100"] by simp
  moreover have "s_val_of_max (456/10) = fmt_f 1 (456/10)"
    using s_val_of_max_table [of "456/10"] by simp
  moreover have "s_val_of_max 456 = fmt_f 0 456"
    using s_val_of_max_table [of 456] by simp
  moreover have "s_val_of_max 45600 = fmt_E 2 45600"
    using s_val_of_max_table [of 45600] by simp
  moreover have "s_val_of_max (5/10000) = fmt_E 2 (5/10000)"
    using s_val_of_max_table [of "5/10000"] by simp
  ultimately show ?thesis
    using fmt_f_examples fmt_E_examples by simp
qed

section \<open>Text boxes\<close>

lemmas text_line_eval =
  text_line_def BoxLocation_def prepare_loc_def eval_loc_vert_def eval_loc_horz_def
  kw_get_def kw_has_def AList.update.simps Let_def

lemma text_line_top_baseline_fails:
  assumes "kw_get kwargs ''verticalalignment'' (kw_get kwargs ''va'' PNone) = PStr ''top_baseline''"
  shows "\<exists>e. text_line self loc s dx dy kwargs = Inl e"
proof -
  have va: "kw_get kw ''va'' d = PStr ''top_baseline''"
    if "kw = AList.update ''va'' (PStr ''top_baseline'') kw0" for kw kw0 d
    using that by (simp add: kw_get_def update_conv')
  have get: "kw_get (AList.update ''ha'' v kwargs) k d = kw_get kwargs k d"
    if "k \<noteq> ''ha''" for v k d
    using that by (simp add: kw_get_def update_conv')
  have "kw_get kwargs ''verticalalignment'' (kw_get kwargs ''va'' d) = PStr ''top_baseline''" for d
    using assms by (auto simp: kw_get_def split: option.splits)
  then have r: "kw_get (AList.update ''ha'' v kwargs) ''verticalalignment''
      (kw_get (AList.update ''ha'' v kwargs) ''va'' d) = PStr ''top_baseline''" for v d
    by (simp add: get)
  show ?thesis
    unfolding text_line_def Let_def
    by (auto simp: r va [OF refl] split: sum.splits)
qed

text \<open>
  Claim C7. A call of \<open>text\<close> that asks for the vertical alignment
  \<open>top_baseline\<close> is meant to stop with \<open>NotImplementedError\<close>. It does stop
  before anything is drawn, but with \<open>KeyError\<close>: the message of the intended
  error reads \<open>kwargs['vs']\<close>, a key the dictionary does not have. The theorem
  evaluates the call for the location \<open>bl\<close> with the alignment passed as
  \<open>va\<close> and as \<open>verticalalignment\<close>.
\<close>

theorem text_line_top_baseline_KeyError:
  "text_line box0 (LStr ''bl'') (Str ''Release'') PNone PNone [(''va'', PStr ''top_baseline'')]
     = Inl (KeyError ''vs'')
   \<and> text_line box0 (LStr ''bl'') (Str ''Release'') PNone PNone
       [(''verticalalignment'', PStr ''top_baseline'')]
     = Inl (KeyError ''vs'')"
  by (simp add: text_line_eval box0_def)

text \<open>
  Claim C10. \<open>text_block(loc, block, colors=colors, ...)\<close> gives the same result,
  and so the same sequence of calls on the axes with the same strings, positions
  and colours (or the same error), as \<open>text_blocks\<close> applied to the singleton
  lists \<open>[block]\<close> and \<open>[colors]\<close> with the same options.
\<close>

theorem text_block_is_text_blocks_singleton:
  "text_block self loc block colors dy0 dy_line dy_block reverse kwargs =
     text_blocks self loc [block] dy0 dy_line dy_block reverse (Some [colors]) kwargs"
proof (cases "kw_has kwargs ''loc'' \<or> kw_has kwargs ''blocks''")
  case True
  then show ?thesis
    by (simp add: text_block_def text_blocks_def)
next
  case False
  then show ?thesis
    by (simp add: text_block_def)
qed


section \<open>Horizontally filled text blocks\<close>

lemma update_absent: "k \<notin> fst ` set al \<Longrightarrow> AList.update k v al = al @ [(k, v)]"
  by (induction al) auto

lemma kw_has_iff: "kw_has kw k \<longleftrightarrow> k \<in> fst ` set kw"
  by (simp add: kw_has_def map_of_eq_None_iff)

lemma map_of_absent: "k \<notin> fst ` set kw \<Longrightarrow> map_of kw k = None"
  by (simp add: map_of_eq_None_iff)

lemma kw_get_absent: "k \<notin> fst ` set kw \<Longrightarrow> kw_get kw k d = d"
  by (simp add: kw_get_def map_of_absent)

lemma kw_get_append_absent: "k \<notin> fst ` set kw \<Longrightarrow> kw_get (kw @ kw') k d = kw_get kw' k d"
  by (simp add: kw_get_def map_add_def map_of_absent)

lemma get_va_not_top_baseline: "get_va l \<noteq> ''top_baseline''"
  by (cases l rule: get_va.cases) simp_all

text \<open>
  One call of \<open>text\<close> with numeric offsets and a dictionary that starts with the
  colour and has none of the keys read by \<open>text\<close>: exactly one text call is
  recorded, at the anchor shifted by the offsets, with the colour of the line and
  the alignments of the location appended to the dictionary.
\<close>

lemma text_line_plain:
  assumes loc: "BoxLocation loc = Inr l"
    and keys: "fst ` set kw \<inter> {''color'', ''ha'', ''va'', ''horizontalalignment'',
                 ''verticalalignment'', ''x'', ''y''} = {}"
  shows "text_line self loc s (PNum dx) (PNum dy) ((''color'', c) # kw) =
     Inr (self\<lparr>calls := calls self
            @ [AxText (get_x0 l (unit_dx self) + dx * unit_dx self)
                 (get_y0 l (unit_dy self) + dy * unit_dy self) s
                 (((''color'', text_color s c) # kw)
                  @ [(''ha'', PStr (get_ha l)), (''va'', PStr (get_va l))])]
            @ (if show_baseline self
               then [AxHLine (get_y0 l (unit_dy self) + dy * unit_dy self) (baseline_kwargs self)]
               else [])\<rparr>)"
proof -
  define kw0 where "kw0 = (''color'', c) # kw"
  have ha: "''ha'' \<notin> fst ` set kw0" and va: "''va'' \<notin> fst ` set kw0"
    and hal: "''horizontalalignment'' \<notin> fst ` set kw0"
    and val: "''verticalalignment'' \<notin> fst ` set kw0"
    and x: "''x'' \<notin> fst ` set kw0" and y: "''y'' \<notin> fst ` set kw0"
    using keys by (auto simp: kw0_def)
  define kw1 where "kw1 = kw0 @ [(''ha'', PStr (get_ha l))]"
  define kw2 where "kw2 = kw1 @ [(''va'', PStr (get_va l))]"
  define kw3 where "kw3 = ((''color'', text_color s c) # kw)
      @ [(''ha'', PStr (get_ha l)), (''va'', PStr (get_va l))]"
  have u1: "AList.update ''ha'' (kw_get kw0 ''horizontalalignment'' (kw_get kw0 ''ha'' (PStr (get_ha l)))) kw0 = kw1"
    using ha hal by (simp add: kw_get_absent update_absent kw1_def)
  have va1: "''va'' \<notin> fst ` set kw1" and val1: "''verticalalignment'' \<notin> fst ` set kw1"
    using va val by (auto simp: kw1_def)
  have u2: "AList.update ''va'' (kw_get kw1 ''verticalalignment'' (kw_get kw1 ''va'' (PStr (get_va l)))) kw1 = kw2"
    using va1 val1 by (simp add: kw_get_absent update_absent kw2_def)
  have g: "kw_get kw2 ''va'' PNone = PStr (get_va l)"
    using va1 by (simp add: kw2_def kw_get_append_absent) (simp add: kw_get_def)
  have nx: "\<not> kw_has kw3 ''x''" and ny: "\<not> kw_has kw3 ''y''"
    using x y by (auto simp: kw_has_iff kw3_def kw0_def)
  show ?thesis
  proof (cases s)
    case (Str t)
    then have e: "kw2 = kw3"
      by (simp add: kw3_def kw2_def kw1_def kw0_def)
    have g3: "kw_get kw3 ''va'' PNone = PStr (get_va l)"
      using g e by simp
    show ?thesis
      unfolding text_line_def Let_def kw0_def [symmetric]
      using nx ny
      by (simp add: Str loc u1 u2 g3 e get_va_not_top_baseline) (simp add: kw3_def Str)
  next
    case (ColorStr t c')
    then have e: "AList.update ''color'' c' kw2 = kw3"
      by (simp add: kw3_def kw2_def kw1_def kw0_def)
    show ?thesis
      unfolding text_line_def Let_def kw0_def [symmetric]
      using nx ny
      by (simp add: ColorStr loc u1 u2 g e get_va_not_top_baseline) (simp add: kw3_def ColorStr)
  qed
qed

lemma text_line_None_dx:
  "text_line self loc s PNone dy kw = text_line self loc s (PNum 0) dy kw"
  by (simp add: text_line_def)

lemma delete_keys: "fst ` set (AList.delete k kw) = fst ` set kw - {k}"
  by (induction kw) auto

lemma plain_keys: "plain_kwargs kw \<longleftrightarrow> fst ` set kw \<inter> set reserved_keys = {}"
  by (auto simp: plain_kwargs_def kw_has_iff list_all_iff)

text \<open>
  The call of \<open>text\<close> made by \<open>text_blocks\<close> for one line, when the dictionary
  (after the colour keys are popped) holds \<open>dx\<close> in front of a plain dictionary
  without the key \<open>color\<close>.
\<close>

lemma call_text_plain:
  assumes loc: "BoxLocation loc = Inr l"
    and plain: "plain_kwargs kw"
    and nocolor: "''color'' \<notin> fst ` set kw"
  shows "\<exists>cs'. call_text self loc s dy c ((''dx'', dx_arg dx) # kw) = Inr (self\<lparr>calls := cs'\<rparr>)
     \<and> filter is_text cs' = text_calls self
          @ [expected_text (unit_dx self) (unit_dy self) l kw (dx_value dx) (s, dy, c)]"
proof -
  have keys: "fst ` set kw \<inter> set reserved_keys = {}"
    using plain by (simp add: plain_keys)
  then have nodx: "''dx'' \<notin> fst ` set kw" and nos: "''s'' \<notin> fst ` set kw"
    and nody: "''dy'' \<notin> fst ` set kw"
    by (auto simp: reserved_keys_def)
  have k2: "fst ` set kw \<inter> {''color'', ''ha'', ''va'', ''horizontalalignment'',
      ''verticalalignment'', ''x'', ''y''} = {}"
    using keys nocolor by (auto simp: reserved_keys_def)
  have nots: "\<not> kw_has ((''dx'', dx_arg dx) # kw) ''s''" "\<not> kw_has ((''dx'', dx_arg dx) # kw) ''dy''"
    using nos nody by (simp_all add: kw_has_iff)
  have arg: "text_line self loc s (kw_get ((''dx'', dx_arg dx) # kw) ''dx'' PNone) (PNum dy) ((''color'', c) # kw)
    = text_line self loc s (PNum (dx_value dx)) (PNum dy) ((''color'', c) # kw)"
    by (cases dx) (simp_all add: dx_arg_def dx_value_def kw_get_def text_line_None_dx)
  define cs' where "cs' = calls self
      @ [expected_text (unit_dx self) (unit_dy self) l kw (dx_value dx) (s, dy, c)]
      @ (if show_baseline self
         then [AxHLine (get_y0 l (unit_dy self) + dy * unit_dy self) (baseline_kwargs self)]
         else [])"
  have "call_text self loc s dy c ((''dx'', dx_arg dx) # kw) = Inr (self\<lparr>calls := cs'\<rparr>)"
    unfolding call_text_def
    using nodx by (simp add: nots arg text_line_plain [OF loc k2] expected_text_def cs'_def)
  moreover have "filter is_text cs' = text_calls self
      @ [expected_text (unit_dx self) (unit_dy self) l kw (dx_value dx) (s, dy, c)]"
    by (simp add: cs'_def text_calls_def expected_text_def)
  ultimately show ?thesis
    by blast
qed
lemma lines_end_map: "lines_end dy dl (map f xs) = lines_end dy dl xs"
  by (induction xs arbitrary: dy) simp_all

lemma text_lines_plain:
  assumes loc: "BoxLocation loc = Inr l"
    and plain: "plain_kwargs kw"
    and nocolor: "''color'' \<notin> fst ` set kw"
    and len: "length ss \<le> length cs"
  shows "\<exists>cs'. text_lines self loc ((''dx'', dx_arg dx) # kw) dy dl ss cs
         = Inr (self\<lparr>calls := cs'\<rparr>, lines_end dy dl ss)
     \<and> filter is_text cs' = text_calls self
          @ map (expected_text (unit_dx self) (unit_dy self) l kw (dx_value dx))
              (lines_plan dy dl ss cs)"
  using len
proof (induction ss arbitrary: self dy cs)
  case Nil
  have "self = self\<lparr>calls := calls self\<rparr>"
    by simp
  then show ?case
    by (metis (no_types) append_Nil2 lines_end.simps(1) lines_plan.simps(1) list.map(1)
        text_calls_def text_lines.simps(1))
next
  case (Cons s ss)
  then obtain c cs0 where cs: "cs = c # cs0" and len0: "length ss \<le> length cs0"
    by (cases cs) auto
  obtain c1 where
    a: "call_text self loc s dy c ((''dx'', dx_arg dx) # kw) = Inr (self\<lparr>calls := c1\<rparr>)" and
    b: "filter is_text c1 = text_calls self
          @ [expected_text (unit_dx self) (unit_dy self) l kw (dx_value dx) (s, dy, c)]"
    using call_text_plain [OF loc plain nocolor] by blast
  define self1 where "self1 = self\<lparr>calls := c1\<rparr>"
  obtain c2 where
    d: "text_lines self1 loc ((''dx'', dx_arg dx) # kw) (dy + dl) dl ss cs0
         = Inr (self1\<lparr>calls := c2\<rparr>, lines_end (dy + dl) dl ss)" and
    e: "filter is_text c2 = text_calls self1
          @ map (expected_text (unit_dx self1) (unit_dy self1) l kw (dx_value dx))
              (lines_plan (dy + dl) dl ss cs0)"
    using Cons.IH [OF len0] by blast
  have f: "self1\<lparr>calls := c2\<rparr> = self\<lparr>calls := c2\<rparr>" "unit_dx self1 = unit_dx self"
    "unit_dy self1 = unit_dy self" "text_calls self1 = filter is_text c1"
    by (simp_all add: self1_def text_calls_def)
  have "text_lines self loc ((''dx'', dx_arg dx) # kw) dy dl (s # ss) cs
         = Inr (self\<lparr>calls := c2\<rparr>, lines_end dy dl (s # ss))"
    using a d f by (simp add: cs self1_def)
  moreover have "filter is_text c2 = text_calls self
          @ map (expected_text (unit_dx self) (unit_dy self) l kw (dx_value dx))
              (lines_plan dy dl (s # ss) cs)"
    using e f b by (simp add: cs)
  ultimately show ?case
    by blast
qed

lemma text_blocks_loop_plain:
  assumes loc: "BoxLocation loc = Inr l"
    and plain: "plain_kwargs kw"
    and nocolor: "''color'' \<notin> fst ` set kw"
    and fit: "list_all2 (\<lambda>b c. length b \<le> length c) bs cs"
  shows "\<exists>cs'. text_blocks_loop self loc ((''dx'', dx_arg dx) # kw) dy dl db bs cs
         = Inr (self\<lparr>calls := cs'\<rparr>)
     \<and> filter is_text cs' = text_calls self
          @ map (expected_text (unit_dx self) (unit_dy self) l kw (dx_value dx))
              (blocks_plan dy dl db bs cs)"
  using fit
proof (induction bs cs arbitrary: self dy rule: list_all2_induct)
  case Nil
  have "self = self\<lparr>calls := calls self\<rparr>"
    by simp
  then show ?case
    by (metis (no_types) append_Nil2 blocks_plan.simps(1) list.map(1) text_calls_def
        text_blocks_loop.simps(1))
next
  case (Cons b bs c cs)
  obtain c1 where
    a: "text_lines self loc ((''dx'', dx_arg dx) # kw) dy dl b c
         = Inr (self\<lparr>calls := c1\<rparr>, lines_end dy dl b)" and
    b: "filter is_text c1 = text_calls self
          @ map (expected_text (unit_dx self) (unit_dy self) l kw (dx_value dx))
              (lines_plan dy dl b c)"
    using text_lines_plain [OF loc plain nocolor Cons.hyps(1)] by blast
  define self1 where "self1 = self\<lparr>calls := c1\<rparr>"
  obtain c2 where
    d: "text_blocks_loop self1 loc ((''dx'', dx_arg dx) # kw) (lines_end dy dl b + db) dl db
          bs cs = Inr (self1\<lparr>calls := c2\<rparr>)" and
    e: "filter is_text c2 = text_calls self1
          @ map (expected_text (unit_dx self1) (unit_dy self1) l kw (dx_value dx))
              (blocks_plan (lines_end dy dl b + db) dl db bs cs)"
    using Cons.IH by blast
  have f: "self1\<lparr>calls := c2\<rparr> = self\<lparr>calls := c2\<rparr>" "unit_dx self1 = unit_dx self"
    "unit_dy self1 = unit_dy self" "text_calls self1 = filter is_text c1"
    by (simp_all add: self1_def text_calls_def)
  have "text_blocks_loop self loc ((''dx'', dx_arg dx) # kw) dy dl db (b # bs) (c # cs)
         = Inr (self\<lparr>calls := c2\<rparr>)"
    using a d f by (simp add: self1_def)
  moreover have "filter is_text c2 = text_calls self
          @ map (expected_text (unit_dx self) (unit_dy self) l kw (dx_value dx))
              (blocks_plan dy dl db (b # bs) (c # cs))"
    using e f b by simp
  ultimately show ?case
    by blast
qed

lemma fill_colors_fit:
  assumes "list_all2 (\<lambda>b c. case c of None \<Rightarrow> True | Some r \<Rightarrow> length b \<le> length r) bs cb"
  shows "\<exists>filled. fill_colors d bs cb = Inr filled
     \<and> list_all2 (\<lambda>b r. length b \<le> length r) bs filled"
  using assms
proof (induction bs cb rule: list_all2_induct)
  case Nil
  then show ?case
    by simp
next
  case (Cons b bs c cb)
  then obtain rest where "fill_colors d bs cb = Inr rest"
    and "list_all2 (\<lambda>b r. length b \<le> length r) bs rest"
    by blast
  with Cons.hyps(1) show ?case
    by (cases c) (simp_all add: Let_def)
qed

lemma fill_colors_shape:
  "map length bs = map length bs' \<Longrightarrow> fill_colors d bs cb = fill_colors d bs' cb"
proof (induction bs arbitrary: bs' cb)
  case Nil
  then show ?case
    by simp
next
  case (Cons b bs)
  then obtain b' bs0 where bs': "bs' = b' # bs0" and l: "length b = length b'"
    and m: "map length bs = map length bs0"
    by (cases bs') auto
  show ?case
  proof (cases cb)
    case Nil
    then show ?thesis
      by (simp add: bs')
  next
    case (Cons c cs)
    have "fill_colors d (b # bs) (c # cs) = fill_colors d (b' # bs0) (c # cs)"
      unfolding fill_colors.simps Let_def l Cons.IH [OF m, of cs] by (rule refl)
    then show ?thesis
      by (simp only: bs' Cons)
  qed
qed

lemma colors_fit_blocks:
  assumes "colors_fit bs colors"
  shows "list_all2 (\<lambda>b c. case c of None \<Rightarrow> True | Some r \<Rightarrow> length b \<le> length r)
           bs (colors_blocks_of (length bs) colors)"
proof (cases colors)
  case None
  have "list_all2 (\<lambda>b c. case c of None \<Rightarrow> True | Some r \<Rightarrow> length b \<le> length r)
      bs (replicate (length bs) None)"
    by (induction bs) simp_all
  with None show ?thesis
    by (simp add: colors_blocks_of_def)
next
  case (Some cb)
  with assms show ?thesis
    by (simp add: colors_fit_def colors_blocks_of_def)
qed

lemma plain_uncolored: "plain_kwargs kw \<Longrightarrow> plain_kwargs (uncolored kw)"
  by (auto simp: plain_kwargs_def uncolored_def kw_has_iff list_all_iff delete_keys)

lemma revert_fit:
  "list_all2 (\<lambda>b r. length b \<le> length r) bs filled
   \<Longrightarrow> list_all2 (\<lambda>b r. length b \<le> length r) (revert bs) (revert filled)"
  by (simp add: revert_def list_all2_map1 list_all2_map2)

lemma revert_map: "revert (map (map f) bs) = map (map f) (revert bs)"
  by (simp add: revert_def rev_map)

text \<open>
  \<open>text_blocks\<close> with fitting colours and a plain dictionary behind the
  keyword \<open>dx\<close>: the text calls are the expected calls for
  the planned lines.
\<close>

lemma text_blocks_plain:
  assumes loc: "BoxLocation loc = Inr l"
    and plain: "plain_kwargs kw"
    and fit: "colors_fit bs colors"
  shows "\<exists>cs' filled.
     fill_colors (default_color_of kw) bs
         (colors_blocks_of (length bs) colors) = Inr filled
     \<and> list_all2 (\<lambda>b r. length b \<le> length r) bs filled
     \<and> text_blocks self loc bs dy0 dy_line dy_block reverse colors
         ((''dx'', dx_arg dx) # kw) = Inr (self\<lparr>calls := cs'\<rparr>)
     \<and> filter is_text cs' = text_calls self
          @ map (expected_text (unit_dx self) (unit_dy self) l (uncolored kw) (dx_value dx))
              (blocks_plan (or_default dy0 (or_default dy_line 2.5)) (or_default dy_line 2.5)
                 (or_default dy_block (or_default dy_line 2.5))
                 (if reverse then revert bs else bs)
                 (if reverse then revert filled else filled))"
proof -
  define cbs where "cbs = colors_blocks_of (length bs) colors"
  have shape: "list_all2 (\<lambda>b c. case c of None \<Rightarrow> True | Some r \<Rightarrow> length b \<le> length r)
      bs cbs"
    using colors_fit_blocks [OF fit] by (simp add: cbs_def)
  then obtain filled where
    f: "fill_colors (default_color_of kw) bs cbs = Inr filled" and
    g: "list_all2 (\<lambda>b r. length b \<le> length r) bs filled"
    using fill_colors_fit by blast
  from g have g': "list_all2 (\<lambda>b r. length b \<le> length r) bs filled"
    by simp
  have lencb: "colors = Some cb \<Longrightarrow> length cb = length bs" for cb
    using shape by (auto simp: cbs_def colors_blocks_of_def dest: list_all2_lengthD)
  have pops: "kw_pop ((''dx'', dx_arg dx) # kw) ''c'' (PStr ''black'')
      = (kw_get kw ''c'' (PStr ''black''), (''dx'', dx_arg dx) # AList.delete ''c'' kw)"
    by (simp add: kw_pop_def kw_get_def)
  have pops2: "kw_pop ((''dx'', dx_arg dx) # AList.delete ''c'' kw) ''color'' v
      = (kw_get (AList.delete ''c'' kw) ''color'' v, (''dx'', dx_arg dx) # uncolored kw)" for v
    by (simp add: kw_pop_def kw_get_def uncolored_def)
  define bs' where "bs' = (if reverse then revert bs else bs)"
  define filled' where "filled' = (if reverse then revert filled else filled)"
  have fit': "list_all2 (\<lambda>b r. length b \<le> length r) bs' filled'"
    using g' by (simp add: bs'_def filled'_def revert_fit)
  have nocolor: "''color'' \<notin> fst ` set (uncolored kw)"
    by (simp add: uncolored_def delete_keys)
  have noclash: "\<not> kw_has ((''dx'', dx_arg dx) # kw) ''loc''"
    "\<not> kw_has ((''dx'', dx_arg dx) # kw) ''blocks''"
    using plain by (auto simp: plain_keys kw_has_iff reserved_keys_def)
  obtain cs' where
    a: "text_blocks_loop self loc ((''dx'', dx_arg dx) # uncolored kw)
          (or_default dy0 (or_default dy_line 2.5)) (or_default dy_line 2.5)
          (or_default dy_block (or_default dy_line 2.5)) bs' filled'
        = Inr (self\<lparr>calls := cs'\<rparr>)" and
    b: "filter is_text cs' = text_calls self
          @ map (expected_text (unit_dx self) (unit_dy self) l (uncolored kw) (dx_value dx))
              (blocks_plan (or_default dy0 (or_default dy_line 2.5)) (or_default dy_line 2.5)
                 (or_default dy_block (or_default dy_line 2.5)) bs' filled')"
    using text_blocks_loop_plain [OF loc plain_uncolored [OF plain] nocolor fit'] by blast
  have "text_blocks self loc bs dy0 dy_line dy_block reverse colors
         ((''dx'', dx_arg dx) # kw) = Inr (self\<lparr>calls := cs'\<rparr>)"
    using f a lencb noclash
    by (cases dy0; cases dy_line; cases dy_block; cases colors; cases reverse)
      (simp_all add: text_blocks_def Let_def pops pops2 default_color_of_def cbs_def
        colors_blocks_of_def bs'_def filled'_def or_default_def)
  with f g' b show ?thesis
    unfolding cbs_def bs'_def filled'_def by blast
qed

lemma split1_tab: "TAB \<in> set line \<Longrightarrow> split1 TAB line = [before_tab line, after_tab line]"
proof -
  assume "TAB \<in> set line"
  then have "dropWhile (\<lambda>d. d \<noteq> TAB) line \<noteq> []"
    by (simp add: dropWhile_eq_Nil_conv)
  then show ?thesis
    by (cases "dropWhile (\<lambda>d. d \<noteq> TAB) line") (simp_all add: split1_def before_tab_def after_tab_def)
qed

lemma split1_no_tab: "TAB \<notin> set line \<Longrightarrow> split1 TAB line = [line]"
proof -
  assume "TAB \<notin> set line"
  then have d: "dropWhile (\<lambda>d. d \<noteq> TAB) line = []"
    by (auto simp: dropWhile_eq_Nil_conv)
  show ?thesis
    unfolding split1_def d by simp
qed

text \<open>A string with a tab and a pair are split into their two parts.\<close>

lemma split_line_parts:
  "splittable line \<Longrightarrow> split_line line = Inr (left_part line, right_part line)"
proof (cases line)
  case (HStr s)
  assume "splittable line"
  with HStr show ?thesis
    by (simp add: split1_tab)
next
  case (HTuple xs)
  assume "splittable line"
  with HTuple obtain l r where "xs = [l, r]"
    by (cases xs; cases "tl xs") auto
  with HTuple show ?thesis
    by simp
next
  case (HColorStr s c)
  assume "splittable line"
  with HColorStr show ?thesis
    by simp
qed

lemma split_line_no_tab:
  "TAB \<notin> set line \<Longrightarrow> split_line (HStr line) = Inl (ValueError ''not enough values to unpack'')"
  by (simp add: split1_no_tab)

lemma split_lines_parts:
  "\<forall>line \<in> set b. splittable line \<Longrightarrow>
   split_lines b = Inr (map left_part b, map right_part b)"
  by (induction b) (simp_all add: split_line_parts del: split_line.simps)

lemma separate_parts:
  "\<forall>line \<in> set (concat (map block_lines hb)). splittable line \<Longrightarrow>
   separate_blocks hb
     = Inr (map (map left_part) (map block_lines hb), map (map right_part) (map block_lines hb))"
  by (induction hb) (simp_all add: split_lines_parts)

lemma lines_plan_map:
  "lines_plan dy dl (map f xs) cs = map (\<lambda>(x, p). (f x, p)) (lines_plan dy dl xs cs)"
  by (induction dy dl xs cs rule: lines_plan.induct) simp_all

lemma blocks_plan_map:
  "blocks_plan dy dl db (map (map f) bs) cs = map (\<lambda>(x, p). (f x, p)) (blocks_plan dy dl db bs cs)"
  by (induction dy dl db bs cs rule: blocks_plan.induct) (simp_all add: lines_plan_map lines_end_map)

lemma lines_plan_fst: "length xs \<le> length cs \<Longrightarrow> map fst (lines_plan dy dl xs cs) = xs"
  by (induction dy dl xs cs rule: lines_plan.induct) simp_all

lemma blocks_plan_fst:
  "list_all2 (\<lambda>b r. length b \<le> length r) bs cs \<Longrightarrow> map fst (blocks_plan dy dl db bs cs) = concat bs"
  by (induction dy dl db bs cs rule: blocks_plan.induct) (simp_all add: lines_plan_fst)

lemma length_concat_revert: "length (concat (revert bs)) = length (concat bs)"
  by (simp add: revert_def length_concat rev_map [symmetric] o_def)

lemma dx_value_neg: "dx_value (map_option uminus dx) = - dx_value dx"
  by (cases dx) (simp_all add: dx_value_def)

lemma neg_dx_arg: "neg_dx (dx_arg dx) = Inr (dx_arg (map_option uminus dx))"
  by (cases dx) (simp_all add: dx_arg_def)

lemma kw_pop_with_dx:
  "plain_kwargs kw \<Longrightarrow> kw_pop (with_dx dx kw) ''dx'' PNone = (dx_arg dx, kw)"
proof -
  assume "plain_kwargs kw"
  then have "''dx'' \<notin> fst ` set kw"
    by (auto simp: plain_keys reserved_keys_def)
  then show ?thesis
    by (cases dx) (simp_all add: kw_pop_def with_dx_def dx_arg_def kw_get_absent, simp add: kw_get_def)
qed

lemma expected_text_alignment:
  assumes "plain_kwargs kw"
  shows "\<exists>k. expected_text udx udy l kw dx (s, dy, c)
           = AxText (get_x0 l udx + dx * udx) (get_y0 l udy + dy * udy) s k
         \<and> kw_get k ''ha'' PNone = PStr (get_ha l) \<and> kw_get k ''va'' PNone = PStr (get_va l)"
proof -
  have h: "''ha'' \<notin> fst ` set ((''color'', text_color s c) # kw)"
    and v: "''va'' \<notin> fst ` set ((''color'', text_color s c) # kw)"
    using assms by (auto simp: plain_keys reserved_keys_def)
  have "kw_get (((''color'', text_color s c) # kw)
      @ [(''ha'', PStr (get_ha l)), (''va'', PStr (get_va l))]) ''ha'' PNone = PStr (get_ha l)"
    unfolding kw_get_append_absent [OF h] by (simp add: kw_get_def)
  moreover have "kw_get (((''color'', text_color s c) # kw)
      @ [(''ha'', PStr (get_ha l)), (''va'', PStr (get_va l))]) ''va'' PNone = PStr (get_va l)"
    unfolding kw_get_append_absent [OF v] by (simp add: kw_get_def)
  ultimately show ?thesis
    by (simp add: expected_text_def)
qed

lemma colors_fit_map: "colors_fit (map (map f) bs) colors = colors_fit bs colors"
  by (cases colors) (simp_all add: colors_fit_def list_all2_map1)

lemma BoxLocation_bl: "BoxLocation (LStr ''bl'') = Inr (Vb, Hl)"
  by (simp add: BoxLocation_def prepare_loc_def eval_loc_vert_def eval_loc_horz_def)

lemma BoxLocation_br: "BoxLocation (LStr ''br'') = Inr (Vb, Hr)"
  by (simp add: BoxLocation_def prepare_loc_def eval_loc_vert_def eval_loc_horz_def)

lemma split_from_hit:
  "sep \<noteq> [] \<Longrightarrow> take (length sep) s = sep \<Longrightarrow>
   split_from sep cur s = rev cur # split_from sep [] (drop (length sep) s)"
  using split_from.simps [of sep cur s] by simp

lemma split_from_end: "take (length sep) [] \<noteq> sep \<Longrightarrow> split_from sep cur [] = [rev cur]"
  using split_from.simps [of sep cur "[]"] by simp

lemma split_from_miss:
  "take (length sep) (c # cs) \<noteq> sep \<Longrightarrow> split_from sep cur (c # cs) = split_from sep (c # cur) cs"
  using split_from.simps [of sep cur "c # cs"] by simp

lemmas split_eval = split_def split_from_hit split_from_end split_from_miss strip_def
  py_isspace_def NL_def TAB_def split1_def

lemmas hfill_eval = text_blocks_hfill_def hfill_blocks_def text_blocks_def kw_pop_def call_text_def

text \<open>
  Claim C9, as the claim states it, fails: not every line given to the placement is
  split and drawn. A string line without a tab cannot be unpacked into a left and a
  right part; the placement raises \<open>ValueError\<close> and draws nothing.
\<close>

theorem text_blocks_hfill_no_tab_counterexample:
  "text_blocks_hfill box0 (LStr ''b'') (BlocksList [BlockList [HStr ''Height: 100 m AGL'']])
     None None None False None []
   = Inl (ValueError ''not enough values to unpack'')"
  by (simp add: hfill_eval split_eval)

text \<open>
  Claim C9, amended. The lines are those that the placement reads in its argument:
  the lines of the list blocks, and for a string the lines of its blocks after
  stripping and splitting at empty lines and line ends. Let every line be a string
  that contains a tab or a tuple of two elements; let the keywords be \<open>dx\<close> (or
  none) and a dictionary without keys for position or alignment and without names
  of parameters; let the colours, if any, fit the blocks. Then the placement
  succeeds and draws first all left parts, then all right parts, in the same order
  of lines (the order given, or the reverted one). The line with index \<open>k\<close> is
  split at its first tab (a tuple into its two elements); its left part is drawn
  left-aligned on the baseline at \<open>x = dx_unit + dx * dx_unit\<close>, the offset from
  the bottom-left anchor, its right part right-aligned on the baseline at
  \<open>x = 1 - dx_unit + (- dx) * dx_unit\<close>, the mirrored offset from the bottom-right
  anchor, and both at the same height \<open>dy_unit + dy\<^sub>k * dy_unit\<close>.
\<close>

theorem text_blocks_hfill_spec:
  assumes lines: "\<forall>line \<in> set (concat (hfill_lines blocks)). splittable line"
    and plain: "plain_kwargs kw"
    and fit: "colors_fit (hfill_lines blocks) colors"
  shows "\<exists>cs' L R.
     text_blocks_hfill self loc_y blocks dy0 dy_line dy_block reverse colors (with_dx dx kw)
       = Inr (self\<lparr>calls := cs'\<rparr>)
     \<and> filter is_text cs' = text_calls self @ L @ R
     \<and> length L = length (concat (hfill_lines blocks))
     \<and> length R = length (concat (hfill_lines blocks))
     \<and> (\<forall>k < length (concat (hfill_lines blocks)). \<exists>dyk kl kr.
           L ! k = AxText (unit_dx self + dx_value dx * unit_dx self)
                     (unit_dy self + dyk * unit_dy self)
                     (left_part (concat (if reverse then revert (hfill_lines blocks)
                                         else hfill_lines blocks) ! k)) kl
         \<and> R ! k = AxText (1 - unit_dx self + (- dx_value dx) * unit_dx self)
                     (unit_dy self + dyk * unit_dy self)
                     (right_part (concat (if reverse then revert (hfill_lines blocks)
                                          else hfill_lines blocks) ! k)) kr
         \<and> kw_get kl ''ha'' PNone = PStr ''left'' \<and> kw_get kr ''ha'' PNone = PStr ''right''
         \<and> kw_get kl ''va'' PNone = PStr ''baseline''
         \<and> kw_get kr ''va'' PNone = PStr ''baseline'')"
proof -
  define bs where "bs = hfill_lines blocks"
  define ls where "ls = (if reverse then revert bs else bs)"
  define lefts where "lefts = map (map left_part) bs"
  define rights where "rights = map (map right_part) bs"
  define d0 where "d0 = or_default dy0 (or_default dy_line 2.5)"
  define dl where "dl = or_default dy_line 2.5"
  define db where "db = or_default dy_block (or_default dy_line 2.5)"
  define K where "K = uncolored kw"
  have plainK: "plain_kwargs K"
    using plain by (simp add: K_def plain_uncolored)
  have sep: "separate_blocks (hfill_blocks blocks) = Inr (lefts, rights)"
    using separate_parts [of "hfill_blocks blocks"] lines
    by (simp add: lefts_def rights_def bs_def hfill_lines_def)
  have fitL: "colors_fit lefts colors" and fitR: "colors_fit rights colors"
    using fit by (simp_all add: lefts_def rights_def bs_def colors_fit_map)
  obtain c1 filledL where
    fillL: "fill_colors (default_color_of kw) lefts
              (colors_blocks_of (length lefts) colors) = Inr filledL" and
    shapeL: "list_all2 (\<lambda>b r. length b \<le> length r) lefts filledL" and
    tL: "text_blocks self (LStr ''bl'') lefts dy0 dy_line dy_block reverse colors
           ((''dx'', dx_arg dx) # kw) = Inr (self\<lparr>calls := c1\<rparr>)" and
    cL: "filter is_text c1 = text_calls self
          @ map (expected_text (unit_dx self) (unit_dy self) (Vb, Hl) K (dx_value dx))
              (blocks_plan d0 dl db (if reverse then revert lefts else lefts)
                 (if reverse then revert filledL else filledL))"
    using text_blocks_plain [OF BoxLocation_bl plain fitL, of self dy0 dy_line dy_block
        reverse dx]
    unfolding d0_def dl_def db_def K_def by blast
  define self1 where "self1 = self\<lparr>calls := c1\<rparr>"
  obtain c2 filledR where
    fillR: "fill_colors (default_color_of kw) rights
              (colors_blocks_of (length rights) colors) = Inr filledR" and
    tR: "text_blocks self1 (LStr ''br'') rights dy0 dy_line dy_block reverse colors
           ((''dx'', dx_arg (map_option uminus dx)) # kw) = Inr (self1\<lparr>calls := c2\<rparr>)" and
    cR: "filter is_text c2 = text_calls self1
          @ map (expected_text (unit_dx self1) (unit_dy self1) (Vb, Hr) K
                   (dx_value (map_option uminus dx)))
              (blocks_plan d0 dl db (if reverse then revert rights else rights)
                 (if reverse then revert filledR else filledR))"
    using text_blocks_plain [OF BoxLocation_br plain fitR, of self1 dy0 dy_line dy_block
        reverse "map_option uminus dx"]
    unfolding d0_def dl_def db_def K_def by blast
  have same: "filledR = filledL"
  proof -
    have "map length rights = map length lefts"
      by (simp add: lefts_def rights_def o_def)
    from fill_colors_shape [OF this] fillL fillR show ?thesis
      by (simp add: lefts_def rights_def)
  qed
  define filled where "filled = (if reverse then revert filledL else filledL)"
  define P where "P = blocks_plan d0 dl db ls filled"
  have shape: "list_all2 (\<lambda>b r. length b \<le> length r) ls filled"
  proof -
    have "list_all2 (\<lambda>b r. length b \<le> length r) bs filledL"
      using shapeL by (simp add: lefts_def list_all2_map1)
    then show ?thesis
      by (simp add: ls_def filled_def revert_fit)
  qed
  have fstP: "map fst P = concat ls"
    unfolding P_def by (rule blocks_plan_fst [OF shape])
  have lenP: "length P = length (concat bs)"
  proof -
    have "length P = length (concat ls)"
      using fstP by (metis length_map)
    then show ?thesis
      by (simp add: ls_def length_concat_revert)
  qed
  have planL: "blocks_plan d0 dl db (if reverse then revert lefts else lefts) filled
      = map (\<lambda>(x, p). (left_part x, p)) P"
  proof -
    have "(if reverse then revert lefts else lefts) = map (map left_part) ls"
      by (simp add: lefts_def ls_def revert_map)
    then show ?thesis
      by (simp add: P_def blocks_plan_map)
  qed
  have planR: "blocks_plan d0 dl db (if reverse then revert rights else rights) filled
      = map (\<lambda>(x, p). (right_part x, p)) P"
  proof -
    have "(if reverse then revert rights else rights) = map (map right_part) ls"
      by (simp add: rights_def ls_def revert_map)
    then show ?thesis
      by (simp add: P_def blocks_plan_map)
  qed
  define L where "L = map (expected_text (unit_dx self) (unit_dy self) (Vb, Hl) K (dx_value dx))
      (map (\<lambda>(x, p). (left_part x, p)) P)"
  define R where "R = map (expected_text (unit_dx self) (unit_dy self) (Vb, Hr) K (- dx_value dx))
      (map (\<lambda>(x, p). (right_part x, p)) P)"
  have cL': "filter is_text c1 = text_calls self @ L"
    unfolding L_def
    using cL unfolding filled_def [symmetric] planL .
  have u: "unit_dx self1 = unit_dx self" "unit_dy self1 = unit_dy self"
    "text_calls self1 = filter is_text c1"
    by (simp_all add: self1_def text_calls_def)
  have "filter is_text c2 = (text_calls self @ L) @ R"
    unfolding R_def
    using cR unfolding same dx_value_neg filled_def [symmetric] planR u cL' .
  then have cR': "filter is_text c2 = text_calls self @ L @ R"
    by simp
  have noclash: "\<not> kw_has kw ''loc''" "\<not> kw_has kw ''blocks''"
    using plain by (auto simp: plain_keys kw_has_iff reserved_keys_def)
  have run: "text_blocks_hfill self loc_y blocks dy0 dy_line dy_block reverse colors
      (with_dx dx kw) = Inr (self\<lparr>calls := c2\<rparr>)"
    using tL tR noclash
    by (simp add: text_blocks_hfill_def sep kw_pop_with_dx [OF plain] neg_dx_arg self1_def)
  have each: "\<exists>dyk kl kr.
           L ! k = AxText (unit_dx self + dx_value dx * unit_dx self)
                     (unit_dy self + dyk * unit_dy self) (left_part (concat ls ! k)) kl
         \<and> R ! k = AxText (1 - unit_dx self + (- dx_value dx) * unit_dx self)
                     (unit_dy self + dyk * unit_dy self) (right_part (concat ls ! k)) kr
         \<and> kw_get kl ''ha'' PNone = PStr ''left'' \<and> kw_get kr ''ha'' PNone = PStr ''right''
         \<and> kw_get kl ''va'' PNone = PStr ''baseline''
         \<and> kw_get kr ''va'' PNone = PStr ''baseline''"
    if k: "k < length (concat bs)" for k
  proof -
    have kP: "k < length P"
      using k lenP by simp
    obtain x dyk ck where pk: "P ! k = (x, dyk, ck)"
      by (cases "P ! k") auto
    have "fst (P ! k) = concat ls ! k"
      using fstP kP by (metis nth_map)
    with pk have x: "x = concat ls ! k"
      by simp
    have Lk: "L ! k = expected_text (unit_dx self) (unit_dy self) (Vb, Hl) K (dx_value dx)
        (left_part x, dyk, ck)"
      using kP pk by (simp add: L_def)
    have Rk: "R ! k = expected_text (unit_dx self) (unit_dy self) (Vb, Hr) K (- dx_value dx)
        (right_part x, dyk, ck)"
      using kP pk by (simp add: R_def)
    obtain kl where
      "L ! k = AxText (get_x0 (Vb, Hl) (unit_dx self) + dx_value dx * unit_dx self)
         (get_y0 (Vb, Hl) (unit_dy self) + dyk * unit_dy self) (left_part x) kl"
      "kw_get kl ''ha'' PNone = PStr (get_ha (Vb, Hl))"
      "kw_get kl ''va'' PNone = PStr (get_va (Vb, Hl))"
      using expected_text_alignment [OF plainK] Lk by metis
    moreover obtain kr where
      "R ! k = AxText (get_x0 (Vb, Hr) (unit_dx self) + (- dx_value dx) * unit_dx self)
         (get_y0 (Vb, Hr) (unit_dy self) + dyk * unit_dy self) (right_part x) kr"
      "kw_get kr ''ha'' PNone = PStr (get_ha (Vb, Hr))"
      "kw_get kr ''va'' PNone = PStr (get_va (Vb, Hr))"
      using expected_text_alignment [OF plainK] Rk by metis
    ultimately show ?thesis
      using x by auto
  qed
  have lenL: "length L = length (concat bs)" and lenR: "length R = length (concat bs)"
    using lenP by (simp_all add: L_def R_def)
  show ?thesis
    using run cR' lenL lenR each unfolding ls_def bs_def by blast
qed

text \<open>
  An information block as the plot writes it: a multi-line string of two blocks with
  a line end after the last line, drawn with \<open>reverse=True\<close>, \<open>dy_line=2.75\<close>
  and \<open>size='small'\<close>.
\<close>

lemma hfill_example_lines:
  "hfill_lines (BlocksStr (''Site:'' @ [TAB] @ ''Goesgen'' @ [NL] @ ''Height:'' @ [TAB]
        @ ''100 m AGL'' @ [NL, NL] @ ''Substance:'' @ [TAB] @ ''Cs-137'' @ [NL]))
   = [[HStr (''Site:'' @ [TAB] @ ''Goesgen''), HStr (''Height:'' @ [TAB] @ ''100 m AGL'')],
      [HStr (''Substance:'' @ [TAB] @ ''Cs-137'')]]"
  by (simp add: hfill_lines_def hfill_blocks_def split_eval)

lemma hfill_example_run:
  "text_blocks_hfill box0 (LStr ''b'')
     (BlocksStr (''Site:'' @ [TAB] @ ''Goesgen'' @ [NL] @ ''Height:'' @ [TAB]
        @ ''100 m AGL'' @ [NL, NL] @ ''Substance:'' @ [TAB] @ ''Cs-137'' @ [NL]))
     None (Some (11/4)) None True None [(''size'', PStr ''small'')]
   = Inr (box0\<lparr>calls :=
       [AxText (1/25) (3/8) (Str ''Substance:'')
          [(''color'', PStr ''black''), (''size'', PStr ''small''),
           (''ha'', PStr ''left''), (''va'', PStr ''baseline'')],
        AxText (1/25) (37/40) (Str ''Height:'')
          [(''color'', PStr ''black''), (''size'', PStr ''small''),
           (''ha'', PStr ''left''), (''va'', PStr ''baseline'')],
        AxText (1/25) (6/5) (Str ''Site:'')
          [(''color'', PStr ''black''), (''size'', PStr ''small''),
           (''ha'', PStr ''left''), (''va'', PStr ''baseline'')],
        AxText (24/25) (3/8) (Str ''Cs-137'')
          [(''color'', PStr ''black''), (''size'', PStr ''small''),
           (''ha'', PStr ''right''), (''va'', PStr ''baseline'')],
        AxText (24/25) (37/40) (Str ''100 m AGL'')
          [(''color'', PStr ''black''), (''size'', PStr ''small''),
           (''ha'', PStr ''right''), (''va'', PStr ''baseline'')],
        AxText (24/25) (6/5) (Str ''Goesgen'')
          [(''color'', PStr ''black''), (''size'', PStr ''small''),
           (''ha'', PStr ''right''), (''va'', PStr ''baseline'')]]\<rparr>)"
  by (simp add: hfill_eval split_eval text_line_eval revert_def box0_def)

text \<open>
  A legend block as the plot writes it: a list block of tuples, each a coloured
  marker string and a label, drawn with \<open>dy0=2.0\<close>, \<open>dy_line=2.5\<close>,
  \<open>dx=2.0\<close>, \<open>size='medium'\<close> and \<open>family='monospace'\<close>.
\<close>

lemma hfill_example_tuples:
  "text_blocks_hfill box0 (LStr ''b'')
     (BlocksList [BlockList [HTuple [ColorStr ''###'' (PStr ''red''), Str ''1e-9 - 1e-8''],
                             HTuple [ColorStr ''###'' (PStr ''blue''), Str ''< 1e-9'']]])
     (Some 2) (Some (5/2)) None False None
     [(''dx'', PNum 2), (''size'', PStr ''medium''), (''family'', PStr ''monospace'')]
   = Inr (box0\<lparr>calls :=
       [AxText (3/25) (3/10) (ColorStr ''###'' (PStr ''red''))
          [(''color'', PStr ''red''), (''size'', PStr ''medium''),
           (''family'', PStr ''monospace''),
           (''ha'', PStr ''left''), (''va'', PStr ''baseline'')],
        AxText (3/25) (11/20) (ColorStr ''###'' (PStr ''blue''))
          [(''color'', PStr ''blue''), (''size'', PStr ''medium''),
           (''family'', PStr ''monospace''),
           (''ha'', PStr ''left''), (''va'', PStr ''baseline'')],
        AxText (22/25) (3/10) (Str ''1e-9 - 1e-8'')
          [(''color'', PStr ''black''), (''size'', PStr ''medium''),
           (''family'', PStr ''monospace''),
           (''ha'', PStr ''right''), (''va'', PStr ''baseline'')],
        AxText (22/25) (11/20) (Str ''< 1e-9'')
          [(''color'', PStr ''black''), (''size'', PStr ''medium''),
           (''family'', PStr ''monospace''),
           (''ha'', PStr ''right''), (''va'', PStr ''baseline'')]]\<rparr>)"
  by (simp add: hfill_eval split_eval text_line_eval revert_def box0_def)

theorem text_blocks_hfill_spec_witness:
  "hfill_lines (BlocksStr (''Site:'' @ [TAB] @ ''Goesgen'' @ [NL] @ ''Height:'' @ [TAB]
        @ ''100 m AGL'' @ [NL, NL] @ ''Substance:'' @ [TAB] @ ''Cs-137'' @ [NL]))
   = [[HStr (''Site:'' @ [TAB] @ ''Goesgen''), HStr (''Height:'' @ [TAB] @ ''100 m AGL'')],
      [HStr (''Substance:'' @ [TAB] @ ''Cs-137'')]]
   \<and> text_blocks_hfill box0 (LStr ''b'')
       (BlocksStr (''Site:'' @ [TAB] @ ''Goesgen'' @ [NL] @ ''Height:'' @ [TAB]
          @ ''100 m AGL'' @ [NL, NL] @ ''Substance:'' @ [TAB] @ ''Cs-137'' @ [NL]))
       None (Some (11/4)) None True None (with_dx None [(''size'', PStr ''small'')])
     = Inr (box0\<lparr>calls :=
         [AxText (1/25) (3/8) (Str ''Substance:'')
            [(''color'', PStr ''black''), (''size'', PStr ''small''),
             (''ha'', PStr ''left''), (''va'', PStr ''baseline'')],
          AxText (1/25) (37/40) (Str ''Height:'')
            [(''color'', PStr ''black''), (''size'', PStr ''small''),
             (''ha'', PStr ''left''), (''va'', PStr ''baseline'')],
          AxText (1/25) (6/5) (Str ''Site:'')
            [(''color'', PStr ''black''), (''size'', PStr ''small''),
             (''ha'', PStr ''left''), (''va'', PStr ''baseline'')],
          AxText (24/25) (3/8) (Str ''Cs-137'')
            [(''color'', PStr ''black''), (''size'', PStr ''small''),
             (''ha'', PStr ''right''), (''va'', PStr ''baseline'')],
          AxText (24/25) (37/40) (Str ''100 m AGL'')
            [(''color'', PStr ''black''), (''size'', PStr ''small''),
             (''ha'', PStr ''right''), (''va'', PStr ''baseline'')],
          AxText (24/25) (6/5) (Str ''Goesgen'')
            [(''color'', PStr ''black''), (''size'', PStr ''small''),
             (''ha'', PStr ''right''), (''va'', PStr ''baseline'')]]\<rparr>)
   \<and> text_blocks_hfill box0 (LStr ''b'')
       (BlocksList [BlockList [HTuple [ColorStr ''###'' (PStr ''red''), Str ''1e-9 - 1e-8''],
                               HTuple [ColorStr ''###'' (PStr ''blue''), Str ''< 1e-9'']]])
       (Some 2) (Some (5/2)) None False None
       (with_dx (Some 2) [(''size'', PStr ''medium''), (''family'', PStr ''monospace'')])
     = Inr (box0\<lparr>calls :=
         [AxText (3/25) (3/10) (ColorStr ''###'' (PStr ''red''))
            [(''color'', PStr ''red''), (''size'', PStr ''medium''),
             (''family'', PStr ''monospace''),
             (''ha'', PStr ''left''), (''va'', PStr ''baseline'')],
          AxText (3/25) (11/20) (ColorStr ''###'' (PStr ''blue''))
            [(''color'', PStr ''blue''), (''size'', PStr ''medium''),
             (''family'', PStr ''monospace''),
             (''ha'', PStr ''left''), (''va'', PStr ''baseline'')],
          AxText (22/25) (3/10) (Str ''1e-9 - 1e-8'')
            [(''color'', PStr ''black''), (''size'', PStr ''medium''),
             (''family'', PStr ''monospace''),
             (''ha'', PStr ''right''), (''va'', PStr ''baseline'')],
          AxText (22/25) (11/20) (Str ''< 1e-9'')
            [(''color'', PStr ''black''), (''size'', PStr ''medium''),
             (''family'', PStr ''monospace''),
             (''ha'', PStr ''right''), (''va'', PStr ''baseline'')]]\<rparr>)"
proof -
  let ?info = "BlocksStr (''Site:'' @ [TAB] @ ''Goesgen'' @ [NL] @ ''Height:'' @ [TAB]
        @ ''100 m AGL'' @ [NL, NL] @ ''Substance:'' @ [TAB] @ ''Cs-137'' @ [NL])"
  let ?legend = "BlocksList
     [BlockList [HTuple [ColorStr ''###'' (PStr ''red''), Str ''1e-9 - 1e-8''],
                 HTuple [ColorStr ''###'' (PStr ''blue''), Str ''< 1e-9'']]]"
  have a1: "\<forall>line \<in> set (concat (hfill_lines ?info)). splittable line"
    unfolding hfill_example_lines by simp
  have a2: "plain_kwargs [(''size'', PStr ''small'')]"
    by (simp add: plain_kwargs_def reserved_keys_def kw_has_def)
  have a3: "colors_fit (hfill_lines ?info) None"
    by (simp add: colors_fit_def)
  have b0: "hfill_lines ?legend
      = [[HTuple [ColorStr ''###'' (PStr ''red''), Str ''1e-9 - 1e-8''],
          HTuple [ColorStr ''###'' (PStr ''blue''), Str ''< 1e-9'']]]"
    by (simp add: hfill_lines_def hfill_blocks_def)
  have b1: "\<forall>line \<in> set (concat (hfill_lines ?legend)). splittable line"
    unfolding b0 by simp
  have b2: "plain_kwargs [(''size'', PStr ''medium''), (''family'', PStr ''monospace'')]"
    by (simp add: plain_kwargs_def reserved_keys_def kw_has_def)
  have b3: "colors_fit (hfill_lines ?legend) None"
    by (simp add: colors_fit_def)
  have "\<exists>c. text_blocks_hfill box0 (LStr ''b'') ?info None (Some (11/4)) None True None
           (with_dx None [(''size'', PStr ''small'')]) = Inr (box0\<lparr>calls := c\<rparr>)"
    using text_blocks_hfill_spec [OF a1 a2 a3, of box0 "LStr ''b''" None "Some (11/4)" None
        True None]
    by (elim exE conjE) (rule exI)
  then obtain c1 where
    r1: "text_blocks_hfill box0 (LStr ''b'') ?info None (Some (11/4)) None True None
           (with_dx None [(''size'', PStr ''small'')]) = Inr (box0\<lparr>calls := c1\<rparr>)" ..
  have "\<exists>c. text_blocks_hfill box0 (LStr ''b'') ?legend (Some 2) (Some (5/2)) None False None
           (with_dx (Some 2) [(''size'', PStr ''medium''), (''family'', PStr ''monospace'')])
         = Inr (box0\<lparr>calls := c\<rparr>)"
    using text_blocks_hfill_spec [OF b1 b2 b3, of box0 "LStr ''b''" "Some 2" "Some (5/2)" None
        False "Some 2"]
    by (elim exE conjE) (rule exI)
  then obtain c2 where
    r2: "text_blocks_hfill box0 (LStr ''b'') ?legend (Some 2) (Some (5/2)) None False None
           (with_dx (Some 2) [(''size'', PStr ''medium''), (''family'', PStr ''monospace'')])
         = Inr (box0\<lparr>calls := c2\<rparr>)" ..
  have w: "with_dx None [(''size'', PStr ''small'')] = [(''size'', PStr ''small'')]"
    "with_dx (Some 2) [(''size'', PStr ''medium''), (''family'', PStr ''monospace'')]
     = [(''dx'', PNum 2), (''size'', PStr ''medium''), (''family'', PStr ''monospace'')]"
    by (simp_all add: with_dx_def)
  from r1 r2 hfill_example_lines hfill_example_run hfill_example_tuples show ?thesis
    unfolding w by simp
qed

end
